theory Spec2Isabelle
  imports Complex_Main
begin

section \<open>JavaScript values\<close>

text \<open>
  The adapters are JavaScript. A value is modelled by the datatype below: numbers are the
  finite ones (rationals; no arithmetic is done on them, they are only tested and passed
  on), strings are lists of characters, an object is a map from property names to values (the
  order in which an object enumerates its properties is not modelled).
\<close>

datatype js =
    JUndefined
  | JNull
  | JBool bool
  | JNum rat
  | JStr string
  | JArr "js list"
  | JObj "string \<Rightarrow> js option"

type_synonym jsobj = "string \<Rightarrow> js option"

text \<open>\<^verbatim>\<open>!!v\<close>: the falsy values are undefined, null, false, 0 and the empty string.\<close>

fun truthy :: "js \<Rightarrow> bool" where
  "truthy JUndefined = False"
| "truthy JNull = False"
| "truthy (JBool b) = b"
| "truthy (JNum n) = (n \<noteq> 0)"
| "truthy (JStr s) = (s \<noteq> [])"
| "truthy (JArr xs) = True"
| "truthy (JObj m) = True"

fun typeof :: "js \<Rightarrow> string" where
  "typeof JUndefined = ''undefined''"
| "typeof JNull = ''object''"
| "typeof (JBool b) = ''boolean''"
| "typeof (JNum n) = ''number''"
| "typeof (JStr s) = ''string''"
| "typeof (JArr xs) = ''object''"
| "typeof (JObj m) = ''object''"

text \<open>\<^verbatim>\<open>a || b\<close>\<close>

definition js_or :: "js \<Rightarrow> js \<Rightarrow> js" where
  "js_or a b = (if truthy a then a else b)"

text \<open>
  Property names of an array or a string that are indices are the decimal numerals
  \<^verbatim>\<open>"0"\<close>, \<^verbatim>\<open>"1"\<close>, ...
\<close>

function show_nat :: "nat \<Rightarrow> string" where
  "show_nat n =
     (if n < 10 then [''0123456789'' ! n]
      else show_nat (n div 10) @ [''0123456789'' ! (n mod 10)])"
  by pat_completeness auto
termination
  by (relation "measure id") auto

declare show_nat.simps [simp del]

text \<open>
  The own enumerable properties of a value, which is what an object spread
  \<^verbatim>\<open>{...v}\<close> copies: the properties of an object, the elements of an array and the
  characters of a string under their indices, nothing for the other values.
\<close>

fun own_props :: "js \<Rightarrow> jsobj" where
  "own_props (JObj m) = m"
| "own_props (JArr xs) = map_of (zip (map show_nat [0..<length xs]) xs)"
| "own_props (JStr s) = map_of (zip (map show_nat [0..<length s]) (map (\<lambda>c. JStr [c]) s))"
| "own_props v = Map.empty"

text \<open>\<^verbatim>\<open>o.k\<close> for an object \<open>o\<close>: undefined when the property is missing.\<close>

definition field :: "jsobj \<Rightarrow> string \<Rightarrow> js" where
  "field m k = (case m k of None \<Rightarrow> JUndefined | Some v \<Rightarrow> v)"

section \<open>Exceptions and the transport\<close>

text \<open>
  What the code can throw. \<open>HttpError label status\<close> stands for the
  \<^verbatim>\<open>new Error(`label: ${response.status} ...`)\<close> that the adapters throw on a
  non-success response (the message also holds the status text and the response text);
  \<open>Error message\<close> for \<^verbatim>\<open>new Error(message)\<close> with a fixed message.
\<close>

datatype exn =
    NetworkError
  | SyntaxError
  | TypeError
  | HttpError string nat
  | Error string

text \<open>
  \<^verbatim>\<open>v.k\<close> for a value \<open>v\<close> that came from outside: reading a property of undefined
  or null throws. The names the adapters read are never a built-in member of arrays or
  strings other than \<^verbatim>\<open>length\<close>.
\<close>

definition js_prop :: "js \<Rightarrow> string \<Rightarrow> exn + js" where
  "js_prop v k =
     (case v of
        JUndefined \<Rightarrow> Inl TypeError
      | JNull \<Rightarrow> Inl TypeError
      | JArr xs \<Rightarrow> Inr (if k = ''length'' then JNum (of_nat (length xs)) else field (own_props v) k)
      | JStr s \<Rightarrow> Inr (if k = ''length'' then JNum (of_nat (length s)) else field (own_props v) k)
      | _ \<Rightarrow> Inr (field (own_props v) k))"

text \<open>
  \<^verbatim>\<open>v?.[idx]\<close> for a number \<open>idx\<close>: the element of an array, the character of a
  string, the property of an object under the numeral of \<open>idx\<close>; undefined when there
  is none, and when \<open>v\<close> is undefined or null.
\<close>

definition opt_index :: "js \<Rightarrow> nat \<Rightarrow> js" where
  "opt_index v idx =
     (case v of
        JArr xs \<Rightarrow> (if idx < length xs then xs ! idx else JUndefined)
      | JStr s \<Rightarrow> (if idx < length s then JStr [s ! idx] else JUndefined)
      | JObj m \<Rightarrow> field m (show_nat idx)
      | _ \<Rightarrow> JUndefined)"

text \<open>
  \<^verbatim>\<open>v.map(f)\<close> where \<open>f\<close> may throw: only an array has \<^verbatim>\<open>map\<close>; on any other
  value the call throws a TypeError.
\<close>

fun map_exn :: "('a \<Rightarrow> exn + 'b) \<Rightarrow> 'a list \<Rightarrow> exn + 'b list" where
  "map_exn f [] = Inr []"
| "map_exn f (x # xs) =
     (case f x of
        Inl e \<Rightarrow> Inl e
      | Inr y \<Rightarrow> (case map_exn f xs of Inl e \<Rightarrow> Inl e | Inr ys \<Rightarrow> Inr (y # ys)))"

definition js_map :: "js \<Rightarrow> (nat \<Rightarrow> js \<Rightarrow> exn + js) \<Rightarrow> exn + js list" where
  "js_map v f =
     (case v of
        JArr xs \<Rightarrow> map_exn (\<lambda>(idx, x). f idx x) (zip [0..<length xs] xs)
      | _ \<Rightarrow> Inl TypeError)"

text \<open>
  A request as \<^verbatim>\<open>fetch\<close> receives it: the address (a fixed path, or the path of one
  chunk, \<^verbatim>\<open>/api/plugins/similharity/chunks/${encodeURIComponent(hash)}\<close> followed by a
  suffix), the query parameters, the HTTP method and the value that \<^verbatim>\<open>JSON.stringify\<close>
  turns into the body (undefined when there is none). The headers come from the host's
  \<^verbatim>\<open>getRequestHeaders\<close> and are not modelled.
\<close>

datatype address = Path string | ChunkPath js string

record request =
  url :: address
  query :: jsobj
  http_method :: string
  body :: js

text \<open>The member \<open>k\<close> of the body of a request.\<close>

definition body_field :: "request \<Rightarrow> string \<Rightarrow> js option" where
  "body_field req k = (case body req of JObj m \<Rightarrow> m k | _ \<Rightarrow> None)"

text \<open>
  A response: its status and its body as \<^verbatim>\<open>response.json()\<close> parses it (\<open>None\<close>:
  the body is not JSON, and \<^verbatim>\<open>response.json()\<close> throws).
\<close>

record response =
  status :: nat
  json_body :: "js option"

definition ok :: "response \<Rightarrow> bool" where
  "ok r = (200 \<le> status r \<and> status r \<le> 299)"

text \<open>
  The transport is the environment: it answers a request with a response or fails (a
  network error rejects the promise of \<^verbatim>\<open>fetch\<close>), and it has a state of its own.
\<close>

datatype fetch_result = Rejected | Resolved response

type_synonym 'w transport = "request \<Rightarrow> 'w \<Rightarrow> fetch_result \<times> 'w"

text \<open>
  An asynchronous operation runs against the state of the environment and either
  returns or throws.
\<close>

type_synonym ('a, 'w) io = "'w \<Rightarrow> (exn + 'a) \<times> 'w"

definition io_return :: "'a \<Rightarrow> ('a, 'w) io" where
  "io_return x = (\<lambda>w. (Inr x, w))"

definition io_throw :: "exn \<Rightarrow> ('a, 'w) io" where
  "io_throw e = (\<lambda>w. (Inl e, w))"

definition io_lift :: "exn + 'a \<Rightarrow> ('a, 'w) io" where
  "io_lift r = (\<lambda>w. (r, w))"

definition io_bind :: "('a, 'w) io \<Rightarrow> ('a \<Rightarrow> ('b, 'w) io) \<Rightarrow> ('b, 'w) io" where
  "io_bind m f = (\<lambda>w. case m w of (Inl e, w') \<Rightarrow> (Inl e, w') | (Inr x, w') \<Rightarrow> f x w')"

text \<open>\<^verbatim>\<open>try { m } catch (e) { h }\<close>\<close>

definition io_catch :: "('a, 'w) io \<Rightarrow> (exn \<Rightarrow> ('a, 'w) io) \<Rightarrow> ('a, 'w) io" where
  "io_catch m h = (\<lambda>w. case m w of (Inl e, w') \<Rightarrow> h e w' | (Inr x, w') \<Rightarrow> (Inr x, w'))"

text \<open>\<^verbatim>\<open>await fetch(...)\<close> and \<^verbatim>\<open>await response.json()\<close>\<close>

definition await_fetch :: "'w transport \<Rightarrow> request \<Rightarrow> (response, 'w) io" where
  "await_fetch fetch req =
     (\<lambda>w. case fetch req w of
             (Rejected, w') \<Rightarrow> (Inl NetworkError, w')
           | (Resolved r, w') \<Rightarrow> (Inr r, w'))"

definition await_json :: "response \<Rightarrow> (js, 'w) io" where
  "await_json r = (case json_body r of None \<Rightarrow> io_throw SyntaxError | Some v \<Rightarrow> io_return v)"

section \<open>Embedding providers\<close>

text \<open>
  \<^verbatim>\<open>EMBEDDING_PROVIDERS\<close>, the table of the providers. The secret key names, the
  default URL and the deprecation mark of an entry are read by no function modelled here
  and are left out.
\<close>

record provider =
  name :: string
  local :: bool
  requiresModel :: bool
  modelField :: "string option"
  requiresApiKey :: bool
  requiresUrl :: bool

definition EMBEDDING_PROVIDERS :: "(string \<times> provider) list" where
  "EMBEDDING_PROVIDERS =
    [(''transformers'', \<lparr>name = ''Local (Transformers)'', local = True, requiresModel = False,
        modelField = None, requiresApiKey = False, requiresUrl = False\<rparr>),
     (''webllm'', \<lparr>name = ''WebLLM Extension'', local = True, requiresModel = True,
        modelField = Some ''webllm_model'', requiresApiKey = False, requiresUrl = False\<rparr>),
     (''bananabread'', \<lparr>name = ''BananaBread'', local = True, requiresModel = False,
        modelField = None, requiresApiKey = True, requiresUrl = True\<rparr>),
     (''ollama'', \<lparr>name = ''Ollama'', local = True, requiresModel = True,
        modelField = Some ''ollama_model'', requiresApiKey = False, requiresUrl = True\<rparr>),
     (''llamacpp'', \<lparr>name = ''llama.cpp'', local = True, requiresModel = False,
        modelField = None, requiresApiKey = False, requiresUrl = True\<rparr>),
     (''koboldcpp'', \<lparr>name = ''KoboldCpp'', local = True, requiresModel = False,
        modelField = None, requiresApiKey = False, requiresUrl = True\<rparr>),
     (''vllm'', \<lparr>name = ''vLLM'', local = True, requiresModel = True,
        modelField = Some ''vllm_model'', requiresApiKey = False, requiresUrl = True\<rparr>),
     (''openai'', \<lparr>name = ''OpenAI'', local = False, requiresModel = True,
        modelField = Some ''openai_model'', requiresApiKey = True, requiresUrl = False\<rparr>),
     (''cohere'', \<lparr>name = ''Cohere'', local = False, requiresModel = True,
        modelField = Some ''cohere_model'', requiresApiKey = True, requiresUrl = False\<rparr>),
     (''togetherai'', \<lparr>name = ''TogetherAI'', local = False, requiresModel = True,
        modelField = Some ''togetherai_model'', requiresApiKey = True, requiresUrl = False\<rparr>),
     (''openrouter'', \<lparr>name = ''OpenRouter'', local = False, requiresModel = True,
        modelField = Some ''openrouter_model'', requiresApiKey = True, requiresUrl = False\<rparr>),
     (''mistral'', \<lparr>name = ''MistralAI'', local = False, requiresModel = True,
        modelField = Some ''mistral_model'', requiresApiKey = True, requiresUrl = False\<rparr>),
     (''nomicai'', \<lparr>name = ''NomicAI'', local = False, requiresModel = False,
        modelField = None, requiresApiKey = True, requiresUrl = False\<rparr>),
     (''palm'', \<lparr>name = ''Google AI Studio'', local = False, requiresModel = True,
        modelField = Some ''google_model'', requiresApiKey = True, requiresUrl = False\<rparr>),
     (''vertexai'', \<lparr>name = ''Google Vertex AI'', local = False, requiresModel = True,
        modelField = Some ''google_model'', requiresApiKey = True, requiresUrl = False\<rparr>),
     (''electronhub'', \<lparr>name = ''Electron Hub'', local = False, requiresModel = True,
        modelField = Some ''electronhub_model'', requiresApiKey = True, requiresUrl = False\<rparr>),
     (''extras'', \<lparr>name = ''Extras (deprecated)'', local = False, requiresModel = False,
        modelField = None, requiresApiKey = False, requiresUrl = True\<rparr>)]"

text \<open>
  \<^verbatim>\<open>getModelField(providerId)\<close>: the model field of the provider, or null (\<open>None\<close>).
  The provider id is \<^verbatim>\<open>settings.source\<close>, a string or undefined; a value that is not a
  string names no provider.
\<close>

definition getModelField :: "js \<Rightarrow> string option" where
  "getModelField providerId =
     (case providerId of
        JStr s \<Rightarrow> (case map_of EMBEDDING_PROVIDERS s of
                     None \<Rightarrow> None
                   | Some p \<Rightarrow> modelField p)
      | _ \<Rightarrow> None)"

text \<open>\<^verbatim>\<open>getModelFromSettings(settings)\<close>, the same function in every adapter file.\<close>

definition getModelFromSettings :: "jsobj \<Rightarrow> js" where
  "getModelFromSettings settings =
     (case getModelField (field settings ''source'') of
        Some fld \<Rightarrow> js_or (field settings fld) (JStr [])
      | None \<Rightarrow> JStr [])"

text \<open>
  The state of the host application that \<^verbatim>\<open>getProviderSpecificParams\<close> reads through
  its imports: \<^verbatim>\<open>extension_settings.apiUrl\<close> and \<^verbatim>\<open>.apiKey\<close>, the three entries of
  \<^verbatim>\<open>textgenerationwebui_settings.server_urls\<close> that it looks up,
  \<^verbatim>\<open>secret_state['bananabread_api_key']\<close> and three fields of \<^verbatim>\<open>oai_settings\<close>.
  A secret entry is absent (or falsy), an array of secret objects, or any other truthy
  value.
\<close>

datatype secret_entry = NoSecret | Secrets "jsobj list" | OtherSecret

record host =
  extension_settings_apiUrl :: js
  extension_settings_apiKey :: js
  server_urls_OLLAMA :: js
  server_urls_LLAMACPP :: js
  server_urls_VLLM :: js
  secret_state_bananabread_api_key :: secret_entry
  oai_settings_vertexai_auth_mode :: js
  oai_settings_vertexai_region :: js
  oai_settings_vertexai_express_project_id :: js

text \<open>\<^verbatim>\<open>secrets.find(s => s.active) || secrets[0]\<close>; \<open>None\<close> is undefined.\<close>

definition activeSecret_of :: "jsobj list \<Rightarrow> jsobj option" where
  "activeSecret_of secrets =
     (case find (\<lambda>s. truthy (field s ''active'')) secrets of
        Some s \<Rightarrow> Some s
      | None \<Rightarrow> (case secrets of [] \<Rightarrow> None | s # rest \<Rightarrow> Some s))"

text \<open>
  \<^verbatim>\<open>getProviderSpecificParams(settings, isQuery)\<close>. The \<^verbatim>\<open>switch\<close> compares
  \<^verbatim>\<open>settings.source\<close> with \<^verbatim>\<open>===\<close>; the function assigns to nothing but the
  object \<^verbatim>\<open>params\<close> that it creates and returns.
\<close>

definition getProviderSpecificParams :: "host \<Rightarrow> jsobj \<Rightarrow> bool \<Rightarrow> jsobj" where
  "getProviderSpecificParams h settings isQuery =
     (let source = field settings ''source'' in
      if source = JStr ''extras'' then
        [''extrasUrl'' \<mapsto> extension_settings_apiUrl h,
         ''extrasKey'' \<mapsto> extension_settings_apiKey h]
      else if source = JStr ''cohere'' then
        [''input_type'' \<mapsto> JStr (if isQuery then ''search_query'' else ''search_document'')]
      else if source = JStr ''ollama'' then
        [''apiUrl'' \<mapsto> (if truthy (field settings ''use_alt_endpoint'')
                         then field settings ''alt_endpoint_url''
                         else server_urls_OLLAMA h),
         ''keep'' \<mapsto> JBool (truthy (field settings ''ollama_keep''))]
      else if source = JStr ''llamacpp'' then
        [''apiUrl'' \<mapsto> (if truthy (field settings ''use_alt_endpoint'')
                         then field settings ''alt_endpoint_url''
                         else server_urls_LLAMACPP h)]
      else if source = JStr ''vllm'' then
        [''apiUrl'' \<mapsto> (if truthy (field settings ''use_alt_endpoint'')
                         then field settings ''alt_endpoint_url''
                         else server_urls_VLLM h)]
      else if source = JStr ''bananabread'' then
        (let params = [''apiUrl'' \<mapsto> (if truthy (field settings ''use_alt_endpoint'')
                                        then field settings ''alt_endpoint_url''
                                        else JStr ''http://localhost:8008'')]
         in case secret_state_bananabread_api_key h of
              NoSecret \<Rightarrow> params
            | OtherSecret \<Rightarrow> params
            | Secrets secrets \<Rightarrow>
                (case activeSecret_of secrets of
                   None \<Rightarrow> params
                 | Some activeSecret \<Rightarrow> params(''apiKey'' \<mapsto> field activeSecret ''value'')))
      else if source = JStr ''palm'' then
        [''api'' \<mapsto> JStr ''makersuite'']
      else if source = JStr ''vertexai'' then
        [''api'' \<mapsto> JStr ''vertexai'',
         ''vertexai_auth_mode'' \<mapsto> oai_settings_vertexai_auth_mode h,
         ''vertexai_region'' \<mapsto> oai_settings_vertexai_region h,
         ''vertexai_express_project_id'' \<mapsto> oai_settings_vertexai_express_project_id h]
      else Map.empty)"

section \<open>The collection identifier codec\<close>

text \<open>
  \<^verbatim>\<open>s.split(d)\<close> for a one-character separator: the pieces between the separators, at
  least one piece; \<^verbatim>\<open>parts.join(d)\<close>; \<^verbatim>\<open>parts.slice(2)\<close> is \<^term>\<open>drop 2 parts\<close>.
\<close>

fun js_split :: "char \<Rightarrow> string \<Rightarrow> string list" where
  "js_split d [] = [[]]"
| "js_split d (c # cs) =
     (if c = d then [] # js_split d cs
      else (case js_split d cs of [] \<Rightarrow> [[c]] | p # ps \<Rightarrow> (c # p) # ps))"

fun js_join :: "char \<Rightarrow> string list \<Rightarrow> string" where
  "js_join d [] = []"
| "js_join d [p] = p"
| "js_join d (p # q # ps) = p @ d # js_join d (q # ps)"

record tenant =
  type :: string
  sourceId :: string

text \<open>
  \<^verbatim>\<open>QdrantBackend._parseCollectionId\<close> (qdrant.js). The two \<^verbatim>\<open>console.warn\<close> calls
  write to the log only and are left out.
\<close>

definition qdrant_parseCollectionId :: "js \<Rightarrow> tenant" where
  "qdrant_parseCollectionId collectionId =
     (if \<not> truthy collectionId \<or> typeof collectionId \<noteq> ''string''
      then \<lparr>type = ''unknown'', sourceId = ''unknown''\<rparr>
      else (case collectionId of
        JStr s \<Rightarrow>
          (let parts = js_split CHR '':'' s in
           if length parts \<ge> 3 \<and> parts ! 0 = ''vh''
           then \<lparr>type = parts ! 1, sourceId = js_join CHR '':'' (drop 2 parts)\<rparr>
           else
             (let legacyParts = js_split CHR ''_'' s in
              if length legacyParts \<ge> 3 \<and> legacyParts ! 0 = ''vecthare''
              then \<lparr>type = legacyParts ! 1, sourceId = js_join CHR ''_'' (drop 2 legacyParts)\<rparr>
              else \<lparr>type = ''chat'', sourceId = s\<rparr>))
      | _ \<Rightarrow> \<lparr>type = ''unknown'', sourceId = ''unknown''\<rparr>))"

text \<open>\<^verbatim>\<open>MilvusBackend._parseCollectionId\<close> (the second class of lancedb.js).\<close>

definition milvus_parseCollectionId :: "js \<Rightarrow> tenant" where
  "milvus_parseCollectionId collectionId =
     (if \<not> truthy collectionId \<or> typeof collectionId \<noteq> ''string''
      then \<lparr>type = ''unknown'', sourceId = ''unknown''\<rparr>
      else (case collectionId of
        JStr s \<Rightarrow>
          (let parts = js_split CHR '':'' s in
           if length parts \<ge> 3 \<and> parts ! 0 = ''vh''
           then \<lparr>type = parts ! 1, sourceId = js_join CHR '':'' (drop 2 parts)\<rparr>
           else
             (let legacyParts = js_split CHR ''_'' s in
              if length legacyParts \<ge> 3 \<and> legacyParts ! 0 = ''vecthare''
              then \<lparr>type = legacyParts ! 1, sourceId = js_join CHR ''_'' (drop 2 legacyParts)\<rparr>
              else \<lparr>type = ''chat'', sourceId = s\<rparr>))
      | _ \<Rightarrow> \<lparr>type = ''unknown'', sourceId = ''unknown''\<rparr>))"

section \<open>The hybrid adapter: StandardBackend\<close>

text \<open>
  A \<^verbatim>\<open>for (const x of xs) { ... }\<close> loop whose body updates an accumulator and may
  throw: the first exception that leaves the body ends the loop.
\<close>

fun io_for :: "'a list \<Rightarrow> ('a \<Rightarrow> 's \<Rightarrow> ('s, 'w) io) \<Rightarrow> 's \<Rightarrow> ('s, 'w) io" where
  "io_for [] f s w = (Inr s, w)"
| "io_for (x # xs) f s w =
     (case f x s w of
        (Inl e, w') \<Rightarrow> (Inl e, w')
      | (Inr s', w') \<Rightarrow> io_for xs f s' w')"

text \<open>
  \<^verbatim>\<open>results[k] = v\<close> on an object created as \<^verbatim>\<open>{}\<close>: the assignment creates or
  replaces the property \<open>k\<close>, but for the name \<^verbatim>\<open>__proto__\<close>, where it sets the
  prototype of the object and creates no property.
\<close>

definition js_assign :: "jsobj \<Rightarrow> string \<Rightarrow> js \<Rightarrow> jsobj" where
  "js_assign results k v = (if k = ''__proto__'' then results else results(k \<mapsto> v))"

text \<open>\<^verbatim>\<open>a ?? b\<close>\<close>

definition js_nullish :: "js \<Rightarrow> js \<Rightarrow> js" where
  "js_nullish a b = (if a = JUndefined \<or> a = JNull then b else a)"

text \<open>
  \<^verbatim>\<open>String(v)\<close>, which is also the name under which a value \<open>v\<close> is used as a
  property key. A number is written in decimal: its sign, its whole part and, when it has a
  fraction, a point and the digits of the fraction, at most seventeen of them (the exponent
  forms that the engine uses from \<^verbatim>\<open>1e21\<close> and below \<^verbatim>\<open>1e-6\<close>, and its rounding
  to a double, are not modelled). An array is the join of its elements by a comma, where
  undefined and null give the empty string. An object is \<^verbatim>\<open>[object Object]\<close>; an
  object that has a property \<^verbatim>\<open>toString\<close> of its own cannot be converted, since no
  value of the model is a function, and the conversion throws a TypeError.
\<close>

fun frac_digits :: "nat \<Rightarrow> rat \<Rightarrow> string" where
  "frac_digits 0 r = []"
| "frac_digits (Suc n) r =
     (if r = 0 then []
      else (let d = nat \<lfloor>r * 10\<rfloor>
            in (''0123456789'' ! d) # frac_digits n (r * 10 - of_nat d)))"

definition number_string :: "rat \<Rightarrow> string" where
  "number_string q =
     (let a = \<bar>q\<bar>; whole = nat \<lfloor>a\<rfloor>
      in (if q < 0 then ''-'' else []) @ show_nat whole @
         (if a = of_nat whole then [] else CHR ''.'' # frac_digits 17 (a - of_nat whole)))"

fun to_string :: "js \<Rightarrow> exn + string"
  and elements_string :: "js list \<Rightarrow> exn + string list" where
  "to_string JUndefined = Inr ''undefined''"
| "to_string JNull = Inr ''null''"
| "to_string (JBool b) = Inr (if b then ''true'' else ''false'')"
| "to_string (JNum n) = Inr (number_string n)"
| "to_string (JStr s) = Inr s"
| "to_string (JArr xs) =
     (case elements_string xs of Inl e \<Rightarrow> Inl e | Inr ss \<Rightarrow> Inr (js_join CHR '','' ss))"
| "to_string (JObj m) =
     (if m ''toString'' = None then Inr ''[object Object]'' else Inl TypeError)"
| "elements_string [] = Inr []"
| "elements_string (x # xs) =
     (case (case x of JUndefined \<Rightarrow> Inr [] | JNull \<Rightarrow> Inr [] | _ \<Rightarrow> to_string x) of
        Inl e \<Rightarrow> Inl e
      | Inr s \<Rightarrow> (case elements_string xs of Inl e \<Rightarrow> Inl e | Inr ss \<Rightarrow> Inr (s # ss)))"

text \<open>
  The numbers that arithmetic produces: besides the finite ones, \<^verbatim>\<open>NaN\<close> and the two
  infinities.
\<close>

datatype number = NaN | NegInf | Fin rat | PosInf

text \<open>
  \<^verbatim>\<open>Number(s)\<close> for a string: white space at both ends is dropped; the empty string is
  0; a numeral is \<^verbatim>\<open>0x\<close>, \<^verbatim>\<open>0o\<close> or \<^verbatim>\<open>0b\<close> (in either case) with digits of that
  base, or a decimal numeral with an optional sign: \<^verbatim>\<open>Infinity\<close>, or digits with an
  optional fraction and an optional exponent; anything else is \<^verbatim>\<open>NaN\<close>.
\<close>

definition is_space :: "char \<Rightarrow> bool" where
  "is_space c =
     (c \<in> set [CHR 0x09, CHR 0x0A, CHR 0x0B, CHR 0x0C, CHR 0x0D, CHR 0x20, CHR 0xA0])"

definition js_trim :: "string \<Rightarrow> string" where
  "js_trim s = rev (dropWhile is_space (rev (dropWhile is_space s)))"

definition digit_of :: "char \<Rightarrow> nat option" where
  "digit_of c =
     (let n = (of_char c :: nat)
      in if 48 \<le> n \<and> n \<le> 57 then Some (n - 48)
         else if 97 \<le> n \<and> n \<le> 102 then Some (n - 87)
         else if 65 \<le> n \<and> n \<le> 70 then Some (n - 55)
         else None)"

text \<open>
  The value of a sequence of digits in a base, after the digits already read; \<open>None\<close>
  when a character is not a digit of the base.
\<close>

fun numeral_value :: "nat \<Rightarrow> string \<Rightarrow> nat \<Rightarrow> nat option" where
  "numeral_value b [] acc = Some acc"
| "numeral_value b (c # cs) acc =
     (case digit_of c of
        None \<Rightarrow> None
      | Some d \<Rightarrow> if d < b then numeral_value b cs (acc * b + d) else None)"

definition exponent_value :: "string \<Rightarrow> int option" where
  "exponent_value s =
     (case s of
        [] \<Rightarrow> Some 0
      | e # signed \<Rightarrow>
          (let negative = (take 1 signed = ''-'');
               digits = (if take 1 signed = ''-'' \<or> take 1 signed = ''+''
                         then drop 1 signed else signed)
           in if digits = [] then None
              else (case numeral_value 10 digits 0 of
                      None \<Rightarrow> None
                    | Some n \<Rightarrow> Some (if negative then - int n else int n))))"

definition unsigned_decimal :: "string \<Rightarrow> number" where
  "unsigned_decimal s =
     (if s = ''Infinity'' then PosInf
      else
        (let mantissa = takeWhile (\<lambda>c. c \<noteq> CHR ''e'' \<and> c \<noteq> CHR ''E'') s;
             exponent = dropWhile (\<lambda>c. c \<noteq> CHR ''e'' \<and> c \<noteq> CHR ''E'') s;
             whole = takeWhile (\<lambda>c. c \<noteq> CHR ''.'') mantissa;
             fraction = drop 1 (dropWhile (\<lambda>c. c \<noteq> CHR ''.'') mantissa)
         in if whole = [] \<and> fraction = [] then NaN
            else
              (case (numeral_value 10 whole 0, numeral_value 10 fraction 0,
                     exponent_value exponent) of
                 (Some w, Some f, Some e) \<Rightarrow>
                   Fin ((of_nat w + of_nat f / 10 ^ length fraction) *
                        (if e < 0 then 1 / 10 ^ nat (- e) else 10 ^ nat e))
               | _ \<Rightarrow> NaN)))"

fun negate :: "number \<Rightarrow> number" where
  "negate NaN = NaN"
| "negate NegInf = PosInf"
| "negate (Fin x) = Fin (- x)"
| "negate PosInf = NegInf"

definition string_to_number :: "string \<Rightarrow> number" where
  "string_to_number s =
     (let t = js_trim s
      in if t = [] then Fin 0
         else if take 2 t = ''0x'' \<or> take 2 t = ''0X'' then
           (if drop 2 t = [] then NaN
            else (case numeral_value 16 (drop 2 t) 0 of None \<Rightarrow> NaN | Some n \<Rightarrow> Fin (of_nat n)))
         else if take 2 t = ''0o'' \<or> take 2 t = ''0O'' then
           (if drop 2 t = [] then NaN
            else (case numeral_value 8 (drop 2 t) 0 of None \<Rightarrow> NaN | Some n \<Rightarrow> Fin (of_nat n)))
         else if take 2 t = ''0b'' \<or> take 2 t = ''0B'' then
           (if drop 2 t = [] then NaN
            else (case numeral_value 2 (drop 2 t) 0 of None \<Rightarrow> NaN | Some n \<Rightarrow> Fin (of_nat n)))
         else if take 1 t = ''+'' then unsigned_decimal (drop 1 t)
         else if take 1 t = ''-'' then negate (unsigned_decimal (drop 1 t))
         else unsigned_decimal t)"

text \<open>
  \<^verbatim>\<open>Number(v)\<close>: an array or an object is converted to a string first, which can
  throw.
\<close>

definition to_number :: "js \<Rightarrow> exn + number" where
  "to_number v =
     (case v of
        JUndefined \<Rightarrow> Inr NaN
      | JNull \<Rightarrow> Inr (Fin 0)
      | JBool b \<Rightarrow> Inr (Fin (if b then 1 else 0))
      | JNum n \<Rightarrow> Inr (Fin n)
      | JStr s \<Rightarrow> Inr (string_to_number s)
      | _ \<Rightarrow> (case to_string v of Inl e \<Rightarrow> Inl e | Inr s \<Rightarrow> Inr (string_to_number s)))"

text \<open>
  \<^verbatim>\<open>Math.max(...vs)\<close> converts every argument to a number and returns the largest,
  \<^verbatim>\<open>NaN\<close> when one of them is \<^verbatim>\<open>NaN\<close>, and minus infinity when there is none. (The
  limit of the engine on the number of arguments of a call is not modelled.)
\<close>

fun number_max :: "number \<Rightarrow> number \<Rightarrow> number" where
  "number_max NaN b = NaN"
| "number_max a NaN = NaN"
| "number_max PosInf b = PosInf"
| "number_max a PosInf = PosInf"
| "number_max NegInf b = b"
| "number_max a NegInf = a"
| "number_max (Fin x) (Fin y) = Fin (max x y)"

definition math_max :: "js list \<Rightarrow> exn + number" where
  "math_max vs =
     (case map_exn to_number vs of
        Inl e \<Rightarrow> Inl e
      | Inr ns \<Rightarrow> Inr (fold number_max ns NegInf))"

text \<open>\<^verbatim>\<open>a > b\<close> for two numbers: false when one of them is \<^verbatim>\<open>NaN\<close>.\<close>

fun number_greater :: "number \<Rightarrow> number \<Rightarrow> bool" where
  "number_greater NaN b = False"
| "number_greater a NaN = False"
| "number_greater PosInf b = (b \<noteq> PosInf)"
| "number_greater a PosInf = False"
| "number_greater NegInf b = False"
| "number_greater a NegInf = True"
| "number_greater (Fin x) (Fin y) = (x > y)"

text \<open>
  \<^verbatim>\<open>vs.indexOf(n)\<close> for a number \<open>n\<close>: the first index of an element that is strictly
  equal to \<open>n\<close>, which only a number is, and \<^verbatim>\<open>NaN\<close> is equal to nothing; \<open>None\<close> for
  the result -1.
\<close>

fun indexOf :: "js list \<Rightarrow> number \<Rightarrow> nat option" where
  "indexOf [] n = None"
| "indexOf (v # vs) n =
     (if (case v of JNum x \<Rightarrow> n = Fin x | _ \<Rightarrow> False) then Some 0
      else map_option Suc (indexOf vs n))"

text \<open>
  \<^verbatim>\<open>v.substring(0, 100)\<close>: only a string has the method; on any other value that is not
  undefined or null the call throws a TypeError.
\<close>

definition substring_0_100 :: "js \<Rightarrow> exn + js" where
  "substring_0_100 v = (case v of JStr s \<Rightarrow> Inr (JStr (take 100 s)) | _ \<Rightarrow> Inl TypeError)"

text \<open>
  \<^verbatim>\<open>Object.fromEntries(entries)\<close>: every key is converted to a property name, which can
  throw; a later entry replaces an earlier one of the same name.
\<close>

definition fromEntries :: "(js \<times> js) list \<Rightarrow> exn + jsobj" where
  "fromEntries entries =
     (case map_exn (\<lambda>(k, v). case to_string k of Inl e \<Rightarrow> Inl e | Inr s \<Rightarrow> Inr (s, v))
             entries of
        Inl e \<Rightarrow> Inl e
      | Inr props \<Rightarrow> Inr (fold (\<lambda>(s, v) m. m(s \<mapsto> v)) props Map.empty))"

text \<open>The empty Query Result \<^verbatim>\<open>{ hashes: [], metadata: [] }\<close>.\<close>

definition empty_result :: js where
  "empty_result = JObj [''hashes'' \<mapsto> JArr [], ''metadata'' \<mapsto> JArr []]"

text \<open>
  \<^verbatim>\<open>initialize\<close> sets \<^verbatim>\<open>this.pluginAvailable\<close>, the only state of the adapter; the
  model returns its new value, and the operations below take it as \<open>pluginAvailable\<close>.
  The constructor sets it to false.
\<close>

definition standard_health_request :: request where
  "standard_health_request =
     \<lparr>url = Path ''/api/plugins/similharity/health'', query = Map.empty,
      http_method = ''GET'', body = JUndefined\<rparr>"

definition standard_init_request :: request where
  "standard_init_request =
     \<lparr>url = Path ''/api/plugins/similharity/backend/init/vectra'', query = Map.empty,
      http_method = ''POST'', body = JUndefined\<rparr>"

definition standard_initialize :: "'w transport \<Rightarrow> jsobj \<Rightarrow> (bool, 'w) io" where
  "standard_initialize fetch settings =
     io_catch
       (io_bind (await_fetch fetch standard_health_request) (\<lambda>response.
          if ok response
          then io_bind (await_fetch fetch standard_init_request) (\<lambda>r. io_return True)
          else io_return False))
       (\<lambda>e. io_return False)"

definition standard_healthCheck_request :: request where
  "standard_healthCheck_request =
     \<lparr>url = Path ''/api/vector/list'', query = Map.empty, http_method = ''POST'',
      body = JObj [''collectionId'' \<mapsto> JStr ''__vecthare_health_check__'',
                   ''source'' \<mapsto> JStr ''transformers'']\<rparr>"

definition standard_healthCheck :: "'w transport \<Rightarrow> (bool, 'w) io" where
  "standard_healthCheck fetch =
     io_catch
       (io_bind (await_fetch fetch standard_healthCheck_request) (\<lambda>response.
          io_return (status response = 200 \<or> status response = 500)))
       (\<lambda>error. io_return False)"

definition standard_list_request :: "host \<Rightarrow> js \<Rightarrow> jsobj \<Rightarrow> request" where
  "standard_list_request h collectionId settings =
     (let providerParams = getProviderSpecificParams h settings False;
          model = getModelFromSettings settings
      in \<lparr>url = Path ''/api/vector/list'', query = Map.empty, http_method = ''POST'',
          body = JObj ([''collectionId'' \<mapsto> collectionId,
                        ''source'' \<mapsto> js_or (field settings ''source'') (JStr ''transformers''),
                        ''model'' \<mapsto> model] ++ providerParams)\<rparr>)"

definition standard_getSavedHashes ::
  "'w transport \<Rightarrow> host \<Rightarrow> js \<Rightarrow> jsobj \<Rightarrow> (js list, 'w) io" where
  "standard_getSavedHashes fetch h collectionId settings =
     io_bind (await_fetch fetch (standard_list_request h collectionId settings)) (\<lambda>response.
       if \<not> ok response then
         (if status response = 500 then io_return []
          else io_throw (HttpError ''Failed to get saved hashes'' (status response)))
       else io_bind (await_json response) (\<lambda>data.
         io_return (case data of JArr xs \<Rightarrow> xs | _ \<Rightarrow> [])))"

text \<open>
  \<^verbatim>\<open>insertVectorItems\<close>. Before the request the method computes statistics of the
  text lengths for the log: the lengths \<^verbatim>\<open>(item.text || '').length\<close>, their maximum
  \<open>maxLen\<close>, and the index of the first length equal to it; when \<open>maxLen\<close> is above
  2000 it takes \<^verbatim>\<open>(items[longestChunkIndex]?.text || '').substring(0, 100)\<close> for a
  warning. This runs outside the \<^verbatim>\<open>try\<close> block and can throw. The average of the
  lengths is computed after the maximum from the same values; once the maximum has been
  computed it cannot throw, and it is only logged, so it is left out.
\<close>

definition standard_insert_statistics :: "jsobj list \<Rightarrow> exn + unit" where
  "standard_insert_statistics items =
     (case map_exn (\<lambda>item. js_prop (js_or (field item ''text'') (JStr [])) ''length'') items of
        Inl e \<Rightarrow> Inl e
      | Inr textLengths \<Rightarrow>
          (case math_max textLengths of
             Inl e \<Rightarrow> Inl e
           | Inr maxLen \<Rightarrow>
               if number_greater maxLen (Fin 2000)
               then
                 (let longestChunkIndex = indexOf textLengths maxLen;
                      longest = (case longestChunkIndex of
                                   None \<Rightarrow> JUndefined
                                 | Some idx \<Rightarrow> if idx < length items
                                               then field (items ! idx) ''text''
                                               else JUndefined)
                  in case substring_0_100 (js_or longest (JStr [])) of
                       Inl e \<Rightarrow> Inl e
                     | Inr preview \<Rightarrow> Inr ())
               else Inr ()))"

text \<open>
  The request is built inside the \<^verbatim>\<open>try\<close> block. The member \<^verbatim>\<open>embeddings\<close> is
  \<^verbatim>\<open>items[0]?.vector ? Object.fromEntries(items.map(i => [i.text, i.vector])) : undefined\<close>,
  whose conversion of the texts to property names can throw. The \<^verbatim>\<open>catch\<close> block
  logs and throws the error again.
\<close>

definition standard_insert_embeddings :: "jsobj list \<Rightarrow> exn + js" where
  "standard_insert_embeddings items =
     (if truthy (case items of [] \<Rightarrow> JUndefined | i0 # rest \<Rightarrow> field i0 ''vector'')
      then (case fromEntries (map (\<lambda>i. (field i ''text'', field i ''vector'')) items) of
              Inl e \<Rightarrow> Inl e
            | Inr embeddings \<Rightarrow> Inr (JObj embeddings))
      else Inr JUndefined)"

definition standard_insert_request ::
  "host \<Rightarrow> js \<Rightarrow> jsobj list \<Rightarrow> jsobj \<Rightarrow> exn + request" where
  "standard_insert_request h collectionId items settings =
     (let providerParams = getProviderSpecificParams h settings False;
          model = getModelFromSettings settings
      in case standard_insert_embeddings items of
           Inl e \<Rightarrow> Inl e
         | Inr embeddings \<Rightarrow>
             Inr \<lparr>url = Path ''/api/vector/insert'', query = Map.empty, http_method = ''POST'',
                  body = JObj ([''collectionId'' \<mapsto> collectionId,
                                ''items'' \<mapsto> JArr (map (\<lambda>item. JObj
                                   [''hash'' \<mapsto> field item ''hash'',
                                    ''text'' \<mapsto> field item ''text'',
                                    ''index'' \<mapsto> js_nullish (field item ''index'') (JNum 0)]) items),
                                ''source'' \<mapsto> js_or (field settings ''source'')
                                                   (JStr ''transformers''),
                                ''model'' \<mapsto> model,
                                ''embeddings'' \<mapsto> embeddings] ++ providerParams)\<rparr>)"

definition standard_insertVectorItems ::
  "'w transport \<Rightarrow> host \<Rightarrow> js \<Rightarrow> jsobj list \<Rightarrow> jsobj \<Rightarrow> (unit, 'w) io" where
  "standard_insertVectorItems fetch h collectionId items settings =
     (if length items = 0 then io_return ()
      else
        io_bind (io_lift (standard_insert_statistics items)) (\<lambda>logged.
          io_catch
            (io_bind (io_lift (standard_insert_request h collectionId items settings)) (\<lambda>req.
               io_bind (await_fetch fetch req) (\<lambda>response.
                 if \<not> ok response
                 then io_throw (HttpError ''Failed to insert vectors'' (status response))
                 else io_return ())))
            (\<lambda>error. io_throw error)))"

text \<open>\<^verbatim>\<open>queryCollection\<close>; \<open>queryVector\<close> is null when the caller gives none.\<close>

definition standard_query_request ::
  "host \<Rightarrow> js \<Rightarrow> string \<Rightarrow> js \<Rightarrow> jsobj \<Rightarrow> js \<Rightarrow> request" where
  "standard_query_request h collectionId searchText topK settings queryVector =
     (let providerParams = getProviderSpecificParams h settings True;
          model = getModelFromSettings settings;
          requestBody =
            [''collectionId'' \<mapsto> collectionId,
             ''searchText'' \<mapsto> JStr searchText,
             ''topK'' \<mapsto> topK,
             ''threshold'' \<mapsto> js_or (field settings ''score_threshold'') (JNum 0),
             ''source'' \<mapsto> js_or (field settings ''source'') (JStr ''transformers''),
             ''model'' \<mapsto> model] ++ providerParams
      in \<lparr>url = Path ''/api/vector/query'', query = Map.empty, http_method = ''POST'',
          body = JObj (if truthy queryVector
                       then requestBody(''embeddings'' \<mapsto> JObj [searchText \<mapsto> queryVector])
                       else requestBody)\<rparr>)"

text \<open>
  The entry that \<^verbatim>\<open>queryCollection\<close> makes of the metadata entry \<open>m\<close> at position
  \<open>idx\<close>: \<^verbatim>\<open>{ hash: data.hashes?.[idx], text: m.text, score: m.score || 0, ...m }\<close>.
\<close>

definition standard_entry :: "js \<Rightarrow> nat \<Rightarrow> js \<Rightarrow> exn + js" where
  "standard_entry hashes idx m =
     (case js_prop m ''text'' of
        Inl e \<Rightarrow> Inl e
      | Inr text \<Rightarrow>
         (case js_prop m ''score'' of
            Inl e \<Rightarrow> Inl e
          | Inr score \<Rightarrow>
              Inr (JObj ([''hash'' \<mapsto> opt_index hashes idx,
                          ''text'' \<mapsto> text,
                          ''score'' \<mapsto> js_or score (JNum 0)] ++ own_props m))))"

definition standard_format :: "js \<Rightarrow> exn + js" where
  "standard_format data =
     (case js_prop data ''hashes'' of
        Inl e \<Rightarrow> Inl e
      | Inr hashes \<Rightarrow>
         (case js_prop data ''metadata'' of
            Inl e \<Rightarrow> Inl e
          | Inr metadata \<Rightarrow>
             (case js_map (js_or metadata (JArr [])) (standard_entry hashes) of
                Inl e \<Rightarrow> Inl e
              | Inr entries \<Rightarrow>
                  Inr (JObj [''hashes'' \<mapsto> js_or hashes (JArr []),
                             ''metadata'' \<mapsto> JArr entries]))))"

definition standard_queryCollection ::
  "'w transport \<Rightarrow> host \<Rightarrow> js \<Rightarrow> string \<Rightarrow> js \<Rightarrow> jsobj \<Rightarrow> js \<Rightarrow> (js, 'w) io" where
  "standard_queryCollection fetch h collectionId searchText topK settings queryVector =
     io_bind (await_fetch fetch
                (standard_query_request h collectionId searchText topK settings queryVector))
       (\<lambda>response.
          if \<not> ok response
          then io_throw (HttpError ''Failed to query collection'' (status response))
          else io_bind (await_json response) (\<lambda>data. io_lift (standard_format data)))"

text \<open>
  \<^verbatim>\<open>queryMultipleCollections\<close>: one request for all the collections; when its
  response is not a success, one \<^verbatim>\<open>queryCollection\<close> for each collection. The ids are
  strings: they are the property names of the result.
\<close>

definition standard_query_multi_request ::
  "host \<Rightarrow> string list \<Rightarrow> string \<Rightarrow> js \<Rightarrow> js \<Rightarrow> jsobj \<Rightarrow> js \<Rightarrow> request" where
  "standard_query_multi_request h collectionIds searchText topK threshold settings queryVector =
     (let providerParams = getProviderSpecificParams h settings True;
          model = getModelFromSettings settings;
          requestBody =
            [''collectionIds'' \<mapsto> JArr (map JStr collectionIds),
             ''searchText'' \<mapsto> JStr searchText,
             ''topK'' \<mapsto> topK,
             ''threshold'' \<mapsto> threshold,
             ''source'' \<mapsto> js_or (field settings ''source'') (JStr ''transformers''),
             ''model'' \<mapsto> model] ++ providerParams
      in \<lparr>url = Path ''/api/vector/query-multi'', query = Map.empty, http_method = ''POST'',
          body = JObj (if truthy queryVector
                       then requestBody(''embeddings'' \<mapsto> JObj [searchText \<mapsto> queryVector])
                       else requestBody)\<rparr>)"

definition standard_queryMultipleCollections ::
  "'w transport \<Rightarrow> host \<Rightarrow> string list \<Rightarrow> string \<Rightarrow> js \<Rightarrow> js \<Rightarrow> jsobj \<Rightarrow> js \<Rightarrow> (js, 'w) io"
  where
  "standard_queryMultipleCollections fetch h collectionIds searchText topK threshold settings
       queryVector =
     io_bind (await_fetch fetch
                (standard_query_multi_request h collectionIds searchText topK threshold settings
                   queryVector))
       (\<lambda>response.
          if \<not> ok response then
            io_bind
              (io_for collectionIds
                 (\<lambda>collectionId results.
                    io_bind
                      (io_catch
                         (standard_queryCollection fetch h (JStr collectionId) searchText topK
                            settings queryVector)
                         (\<lambda>e. io_return empty_result))
                      (\<lambda>r. io_return (js_assign results collectionId r)))
                 Map.empty)
              (\<lambda>results. io_return (JObj results))
          else await_json response)"

text \<open>
  The extended operations. Where the source returns from inside a \<^verbatim>\<open>try\<close> block and
  otherwise falls through to the code after it, the block is modelled as yielding
  \<open>Some\<close> of the returned value or \<open>None\<close>.
\<close>

definition standard_plugin_list_request :: "js \<Rightarrow> jsobj \<Rightarrow> jsobj \<Rightarrow> request" where
  "standard_plugin_list_request collectionId settings options =
     \<lparr>url = Path ''/api/plugins/similharity/chunks/list'', query = Map.empty, http_method = ''POST'',
      body = JObj [''backend'' \<mapsto> JStr ''vectra'',
                   ''collectionId'' \<mapsto> collectionId,
                   ''source'' \<mapsto> js_or (field settings ''source'') (JStr ''transformers''),
                   ''model'' \<mapsto> getModelFromSettings settings,
                   ''offset'' \<mapsto> js_or (field options ''offset'') (JNum 0),
                   ''limit'' \<mapsto> js_or (field options ''limit'') (JNum 100),
                   ''includeVectors'' \<mapsto> js_or (field options ''includeVectors'') (JBool False)]\<rparr>"

definition standard_listChunks ::
  "'w transport \<Rightarrow> host \<Rightarrow> bool \<Rightarrow> js \<Rightarrow> jsobj \<Rightarrow> jsobj \<Rightarrow> (js, 'w) io" where
  "standard_listChunks fetch h pluginAvailable collectionId settings options =
     io_bind
       (if pluginAvailable then
          io_catch
            (io_bind (await_fetch fetch (standard_plugin_list_request collectionId settings options))
               (\<lambda>response.
                  if ok response then io_bind (await_json response) (\<lambda>d. io_return (Some d))
                  else io_return None))
            (\<lambda>e. io_return None)
        else io_return None)
       (\<lambda>returned. case returned of
          Some d \<Rightarrow> io_return d
        | None \<Rightarrow>
            io_bind (standard_getSavedHashes fetch h collectionId settings) (\<lambda>hashes.
              io_return (JObj
                [''items'' \<mapsto> JArr (map (\<lambda>hash. JObj [''hash'' \<mapsto> hash,
                                                        ''text'' \<mapsto> JStr [],
                                                        ''metadata'' \<mapsto> JObj Map.empty]) hashes),
                 ''total'' \<mapsto> JNum (of_nat (length hashes))])))"

definition standard_chunk_request :: "js \<Rightarrow> js \<Rightarrow> jsobj \<Rightarrow> request" where
  "standard_chunk_request collectionId hash settings =
     \<lparr>url = ChunkPath hash ''?'',
      query = [''backend'' \<mapsto> JStr ''vectra'',
               ''collectionId'' \<mapsto> collectionId,
               ''source'' \<mapsto> js_or (field settings ''source'') (JStr ''transformers''),
               ''model'' \<mapsto> getModelFromSettings settings],
      http_method = ''GET'', body = JUndefined\<rparr>"

definition standard_getChunk ::
  "'w transport \<Rightarrow> bool \<Rightarrow> js \<Rightarrow> js \<Rightarrow> jsobj \<Rightarrow> (js, 'w) io" where
  "standard_getChunk fetch pluginAvailable collectionId hash settings =
     (if \<not> pluginAvailable then io_return JNull
      else
        io_bind
          (io_catch
             (io_bind (await_fetch fetch (standard_chunk_request collectionId hash settings))
                (\<lambda>response.
                   if ok response
                   then io_bind (await_json response) (\<lambda>data.
                          io_bind (io_lift (js_prop data ''chunk'')) (\<lambda>c. io_return (Some c)))
                   else io_return None))
             (\<lambda>e. io_return None))
          (\<lambda>returned. case returned of Some c \<Rightarrow> io_return c | None \<Rightarrow> io_return JNull))"

definition standard_update_text_request :: "js \<Rightarrow> js \<Rightarrow> js \<Rightarrow> jsobj \<Rightarrow> request" where
  "standard_update_text_request collectionId hash newText settings =
     \<lparr>url = ChunkPath hash ''/text'', query = Map.empty, http_method = ''PATCH'',
      body = JObj [''backend'' \<mapsto> JStr ''vectra'',
                   ''collectionId'' \<mapsto> collectionId,
                   ''text'' \<mapsto> newText,
                   ''source'' \<mapsto> js_or (field settings ''source'') (JStr ''transformers''),
                   ''model'' \<mapsto> getModelFromSettings settings]\<rparr>"

definition standard_updateChunkText ::
  "'w transport \<Rightarrow> bool \<Rightarrow> js \<Rightarrow> js \<Rightarrow> js \<Rightarrow> jsobj \<Rightarrow> (js, 'w) io" where
  "standard_updateChunkText fetch pluginAvailable collectionId hash newText settings =
     (if \<not> pluginAvailable
      then io_throw (Error ''Chunk text editing requires the Similharity plugin'')
      else
        io_bind (await_fetch fetch (standard_update_text_request collectionId hash newText settings))
          (\<lambda>response.
             if \<not> ok response
             then io_throw (HttpError ''Failed to update chunk text'' (status response))
             else await_json response))"

definition standard_update_metadata_request :: "js \<Rightarrow> js \<Rightarrow> js \<Rightarrow> jsobj \<Rightarrow> request" where
  "standard_update_metadata_request collectionId hash metadata settings =
     \<lparr>url = ChunkPath hash ''/metadata'', query = Map.empty, http_method = ''PATCH'',
      body = JObj [''backend'' \<mapsto> JStr ''vectra'',
                   ''collectionId'' \<mapsto> collectionId,
                   ''metadata'' \<mapsto> metadata,
                   ''source'' \<mapsto> js_or (field settings ''source'') (JStr ''transformers''),
                   ''model'' \<mapsto> getModelFromSettings settings]\<rparr>"

definition standard_updateChunkMetadata ::
  "'w transport \<Rightarrow> bool \<Rightarrow> js \<Rightarrow> js \<Rightarrow> js \<Rightarrow> jsobj \<Rightarrow> (js, 'w) io" where
  "standard_updateChunkMetadata fetch pluginAvailable collectionId hash metadata settings =
     (if \<not> pluginAvailable
      then io_throw (Error ''Chunk metadata editing requires the Similharity plugin'')
      else
        io_bind (await_fetch fetch
                   (standard_update_metadata_request collectionId hash metadata settings))
          (\<lambda>response.
             if \<not> ok response
             then io_throw (HttpError ''Failed to update chunk metadata'' (status response))
             else await_json response))"

definition standard_stats_request :: "js \<Rightarrow> jsobj \<Rightarrow> request" where
  "standard_stats_request collectionId settings =
     \<lparr>url = Path ''/api/plugins/similharity/chunks/stats'', query = Map.empty, http_method = ''POST'',
      body = JObj [''backend'' \<mapsto> JStr ''vectra'',
                   ''collectionId'' \<mapsto> collectionId,
                   ''source'' \<mapsto> js_or (field settings ''source'') (JStr ''transformers''),
                   ''model'' \<mapsto> getModelFromSettings settings]\<rparr>"

definition standard_getStats ::
  "'w transport \<Rightarrow> host \<Rightarrow> bool \<Rightarrow> js \<Rightarrow> jsobj \<Rightarrow> (js, 'w) io" where
  "standard_getStats fetch h pluginAvailable collectionId settings =
     io_bind
       (if pluginAvailable then
          io_catch
            (io_bind (await_fetch fetch (standard_stats_request collectionId settings))
               (\<lambda>response.
                  if ok response
                  then io_bind (await_json response) (\<lambda>data.
                         io_bind (io_lift (js_prop data ''stats'')) (\<lambda>st. io_return (Some st)))
                  else io_return None))
            (\<lambda>e. io_return None)
        else io_return None)
       (\<lambda>returned. case returned of
          Some st \<Rightarrow> io_return st
        | None \<Rightarrow>
            io_bind (standard_getSavedHashes fetch h collectionId settings) (\<lambda>hashes.
              io_return (JObj [''count'' \<mapsto> JNum (of_nat (length hashes)),
                               ''source'' \<mapsto> JStr ''native''])))"

definition standard_collections_request :: request where
  "standard_collections_request =
     \<lparr>url = Path ''/api/plugins/similharity/collections'', query = Map.empty,
      http_method = ''GET'', body = JUndefined\<rparr>"

text \<open>
  \<^verbatim>\<open>c => ({ id: c.id, source: c.source, chunkCount: c.chunkCount || 0,
  backend: c.backend || 'vectra' })\<close>
\<close>

definition standard_collection_entry :: "js \<Rightarrow> exn + js" where
  "standard_collection_entry c =
     (case js_prop c ''id'' of
        Inl e \<Rightarrow> Inl e
      | Inr cid \<Rightarrow>
         (case js_prop c ''source'' of
            Inl e \<Rightarrow> Inl e
          | Inr src \<Rightarrow>
             (case js_prop c ''chunkCount'' of
                Inl e \<Rightarrow> Inl e
              | Inr cnt \<Rightarrow>
                 (case js_prop c ''backend'' of
                    Inl e \<Rightarrow> Inl e
                  | Inr be \<Rightarrow>
                      Inr (JObj [''id'' \<mapsto> cid,
                                 ''source'' \<mapsto> src,
                                 ''chunkCount'' \<mapsto> js_or cnt (JNum 0),
                                 ''backend'' \<mapsto> js_or be (JStr ''vectra'')])))))"

definition standard_discoverCollections ::
  "'w transport \<Rightarrow> bool \<Rightarrow> jsobj \<Rightarrow> (js, 'w) io" where
  "standard_discoverCollections fetch pluginAvailable settings =
     io_bind
       (if pluginAvailable then
          io_catch
            (io_bind (await_fetch fetch standard_collections_request)
               (\<lambda>response.
                  if ok response
                  then io_bind (await_json response) (\<lambda>data.
                         io_bind (io_lift (js_prop data ''collections'')) (\<lambda>cs.
                           io_bind (io_lift (js_map (js_or cs (JArr []))
                                               (\<lambda>idx. standard_collection_entry)))
                             (\<lambda>entries. io_return (Some (JArr entries)))))
                  else io_return None))
            (\<lambda>e. io_return None)
        else io_return None)
       (\<lambda>returned. case returned of Some cs \<Rightarrow> io_return cs | None \<Rightarrow> io_return JNull)"

section \<open>The adapters of the plugin's unified API\<close>

text \<open>
  The three adapters format the results of a query with the same code:
  \<^verbatim>\<open>r => r.hash\<close> and
  \<^verbatim>\<open>r => ({ hash: r.hash, text: r.text, score: r.score, ...r.metadata })\<close>, mapped over
  \<^verbatim>\<open>data.results\<close> in \<^verbatim>\<open>queryCollection\<close> and over
  \<^verbatim>\<open>data.results || data.chunks || []\<close> in \<^verbatim>\<open>queryMultipleCollections\<close>.
\<close>

definition plugin_entry :: "js \<Rightarrow> exn + js" where
  "plugin_entry r =
     (case js_prop r ''hash'' of
        Inl e \<Rightarrow> Inl e
      | Inr hash \<Rightarrow>
         (case js_prop r ''text'' of
            Inl e \<Rightarrow> Inl e
          | Inr text \<Rightarrow>
             (case js_prop r ''score'' of
                Inl e \<Rightarrow> Inl e
              | Inr score \<Rightarrow>
                 (case js_prop r ''metadata'' of
                    Inl e \<Rightarrow> Inl e
                  | Inr metadata \<Rightarrow>
                      Inr (JObj ([''hash'' \<mapsto> hash, ''text'' \<mapsto> text, ''score'' \<mapsto> score]
                                 ++ own_props metadata))))))"

definition plugin_format_array :: "js \<Rightarrow> exn + js" where
  "plugin_format_array resultArray =
     (case js_map resultArray (\<lambda>idx r. js_prop r ''hash'') of
        Inl e \<Rightarrow> Inl e
      | Inr hashes \<Rightarrow>
         (case js_map resultArray (\<lambda>idx. plugin_entry) of
            Inl e \<Rightarrow> Inl e
          | Inr metadata \<Rightarrow>
              Inr (JObj [''hashes'' \<mapsto> JArr hashes, ''metadata'' \<mapsto> JArr metadata])))"

definition plugin_format :: "js \<Rightarrow> exn + js" where
  "plugin_format data =
     (case js_prop data ''results'' of
        Inl e \<Rightarrow> Inl e
      | Inr results \<Rightarrow> plugin_format_array results)"

definition plugin_format_multi :: "js \<Rightarrow> exn + js" where
  "plugin_format_multi data =
     (case js_prop data ''results'' of
        Inl e \<Rightarrow> Inl e
      | Inr results \<Rightarrow>
         (if truthy results then plugin_format_array results
          else (case js_prop data ''chunks'' of
                  Inl e \<Rightarrow> Inl e
                | Inr chunks \<Rightarrow> plugin_format_array (js_or chunks (JArr [])))))"

subsection \<open>LanceDBBackend\<close>

definition lancedb_health_request :: request where
  "lancedb_health_request =
     \<lparr>url = Path ''/api/plugins/similharity/backend/health/lancedb'', query = Map.empty,
      http_method = ''GET'', body = JUndefined\<rparr>"

definition lancedb_healthCheck :: "'w transport \<Rightarrow> (bool, 'w) io" where
  "lancedb_healthCheck fetch =
     io_catch
       (io_bind (await_fetch fetch lancedb_health_request) (\<lambda>response.
          if \<not> ok response then io_return False
          else io_bind (await_json response) (\<lambda>data.
                 io_bind (io_lift (js_prop data ''healthy'')) (\<lambda>healthy.
                   io_return (healthy = JBool True)))))
       (\<lambda>error. io_return False)"

definition lancedb_query_request ::
  "host \<Rightarrow> js \<Rightarrow> js \<Rightarrow> js \<Rightarrow> jsobj \<Rightarrow> request" where
  "lancedb_query_request h collectionId searchText topK settings =
     (let providerParams = getProviderSpecificParams h settings True
      in \<lparr>url = Path ''/api/plugins/similharity/chunks/query'', query = Map.empty,
          http_method = ''POST'',
          body = JObj ([''backend'' \<mapsto> JStr ''lancedb'',
                        ''collectionId'' \<mapsto> collectionId,
                        ''searchText'' \<mapsto> searchText,
                        ''topK'' \<mapsto> topK,
                        ''threshold'' \<mapsto> JNum 0,
                        ''source'' \<mapsto> js_or (field settings ''source'') (JStr ''transformers''),
                        ''model'' \<mapsto> getModelFromSettings settings]
                       ++ providerParams)\<rparr>)"

definition lancedb_queryCollection ::
  "'w transport \<Rightarrow> host \<Rightarrow> js \<Rightarrow> js \<Rightarrow> js \<Rightarrow> jsobj \<Rightarrow> (js, 'w) io" where
  "lancedb_queryCollection fetch h collectionId searchText topK settings =
     io_bind (await_fetch fetch (lancedb_query_request h collectionId searchText topK settings))
       (\<lambda>response.
          if \<not> ok response
          then io_throw (HttpError ''[LanceDB] Failed to query collection'' (status response))
          else io_bind (await_json response) (\<lambda>data. io_lift (plugin_format data)))"

subsection \<open>QdrantBackend\<close>

definition qdrant_health_request :: request where
  "qdrant_health_request =
     \<lparr>url = Path ''/api/plugins/similharity/backend/health/qdrant'', query = Map.empty,
      http_method = ''GET'', body = JUndefined\<rparr>"

definition qdrant_healthCheck :: "'w transport \<Rightarrow> (bool, 'w) io" where
  "qdrant_healthCheck fetch =
     io_catch
       (io_bind (await_fetch fetch qdrant_health_request) (\<lambda>response.
          if \<not> ok response then io_return False
          else io_bind (await_json response) (\<lambda>data.
                 io_bind (io_lift (js_prop data ''healthy'')) (\<lambda>healthy.
                   io_return (healthy = JBool True)))))
       (\<lambda>error. io_return False)"

text \<open>
  \<^verbatim>\<open>insertVectorItems\<close>: every item is sent with its vector and with a metadata object
  made of its metadata and its VectHare fields.
\<close>

definition qdrant_insert_item :: "jsobj \<Rightarrow> js" where
  "qdrant_insert_item item =
     JObj [''hash'' \<mapsto> field item ''hash'',
           ''text'' \<mapsto> field item ''text'',
           ''index'' \<mapsto> field item ''index'',
           ''vector'' \<mapsto> field item ''vector'',
           ''metadata'' \<mapsto> JObj (own_props (field item ''metadata'')
              ++ [''importance'' \<mapsto> field item ''importance'',
                  ''keywords'' \<mapsto> field item ''keywords'',
                  ''customWeights'' \<mapsto> field item ''customWeights'',
                  ''disabledKeywords'' \<mapsto> field item ''disabledKeywords'',
                  ''chunkGroup'' \<mapsto> field item ''chunkGroup'',
                  ''conditions'' \<mapsto> field item ''conditions'',
                  ''summary'' \<mapsto> field item ''summary'',
                  ''isSummaryChunk'' \<mapsto> field item ''isSummaryChunk'',
                  ''parentHash'' \<mapsto> field item ''parentHash''])]"

definition qdrant_insert_request :: "host \<Rightarrow> js \<Rightarrow> jsobj list \<Rightarrow> jsobj \<Rightarrow> request" where
  "qdrant_insert_request h collectionId items settings =
     (let t = qdrant_parseCollectionId collectionId;
          providerParams = getProviderSpecificParams h settings False
      in \<lparr>url = Path ''/api/plugins/similharity/chunks/insert'', query = Map.empty,
          http_method = ''POST'',
          body = JObj ([''backend'' \<mapsto> JStr ''qdrant'',
                        ''collectionId'' \<mapsto> JStr ''vecthare_main'',
                        ''items'' \<mapsto> JArr (map qdrant_insert_item items),
                        ''source'' \<mapsto> js_or (field settings ''source'') (JStr ''transformers''),
                        ''model'' \<mapsto> getModelFromSettings settings,
                        ''filters'' \<mapsto> JObj [''type'' \<mapsto> JStr (type t),
                                            ''sourceId'' \<mapsto> JStr (sourceId t)]]
                       ++ providerParams)\<rparr>)"

definition qdrant_insertVectorItems ::
  "'w transport \<Rightarrow> host \<Rightarrow> js \<Rightarrow> jsobj list \<Rightarrow> jsobj \<Rightarrow> (unit, 'w) io" where
  "qdrant_insertVectorItems fetch h collectionId items settings =
     (if length items = 0 then io_return ()
      else
        io_bind (await_fetch fetch (qdrant_insert_request h collectionId items settings))
          (\<lambda>response.
             if \<not> ok response
             then io_throw (HttpError ''[Qdrant] Failed to insert vectors'' (status response))
             else io_return ()))"

definition qdrant_query_request ::
  "host \<Rightarrow> js \<Rightarrow> js \<Rightarrow> js \<Rightarrow> jsobj \<Rightarrow> request" where
  "qdrant_query_request h collectionId searchText topK settings =
     (let t = qdrant_parseCollectionId collectionId;
          providerParams = getProviderSpecificParams h settings True
      in \<lparr>url = Path ''/api/plugins/similharity/chunks/query'', query = Map.empty,
          http_method = ''POST'',
          body = JObj ([''backend'' \<mapsto> JStr ''qdrant'',
                        ''collectionId'' \<mapsto> JStr ''vecthare_main'',
                        ''searchText'' \<mapsto> searchText,
                        ''topK'' \<mapsto> topK,
                        ''threshold'' \<mapsto> JNum 0,
                        ''source'' \<mapsto> js_or (field settings ''source'') (JStr ''transformers''),
                        ''model'' \<mapsto> getModelFromSettings settings,
                        ''filters'' \<mapsto> JObj [''type'' \<mapsto> JStr (type t),
                                            ''sourceId'' \<mapsto> JStr (sourceId t)]]
                       ++ providerParams)\<rparr>)"

definition qdrant_queryCollection ::
  "'w transport \<Rightarrow> host \<Rightarrow> js \<Rightarrow> js \<Rightarrow> js \<Rightarrow> jsobj \<Rightarrow> (js, 'w) io" where
  "qdrant_queryCollection fetch h collectionId searchText topK settings =
     io_bind (await_fetch fetch (qdrant_query_request h collectionId searchText topK settings))
       (\<lambda>response.
          if \<not> ok response
          then io_throw (HttpError ''[Qdrant] Failed to query collection'' (status response))
          else io_bind (await_json response) (\<lambda>data. io_lift (plugin_format data)))"

text \<open>
  \<^verbatim>\<open>queryMultipleCollections\<close>: one request for each collection, each in a
  \<^verbatim>\<open>try\<close> block of its own. \<open>qdrant_query_one\<close> is that block with its
  \<^verbatim>\<open>catch\<close>: it yields the value that the loop assigns to
  \<^verbatim>\<open>results[collectionId]\<close>.
\<close>

definition qdrant_query_multi_request ::
  "host \<Rightarrow> string \<Rightarrow> js \<Rightarrow> js \<Rightarrow> js \<Rightarrow> jsobj \<Rightarrow> request" where
  "qdrant_query_multi_request h collectionId searchText topK threshold settings =
     (let providerParams = getProviderSpecificParams h settings True;
          t = qdrant_parseCollectionId (JStr collectionId)
      in \<lparr>url = Path ''/api/plugins/similharity/chunks/query'', query = Map.empty,
          http_method = ''POST'',
          body = JObj ([''backend'' \<mapsto> JStr ''qdrant'',
                        ''collectionId'' \<mapsto> JStr ''vecthare_main'',
                        ''searchText'' \<mapsto> searchText,
                        ''topK'' \<mapsto> topK,
                        ''threshold'' \<mapsto> threshold,
                        ''source'' \<mapsto> js_or (field settings ''source'') (JStr ''transformers''),
                        ''model'' \<mapsto> getModelFromSettings settings,
                        ''filters'' \<mapsto> JObj [''type'' \<mapsto> JStr (type t),
                                            ''sourceId'' \<mapsto> JStr (sourceId t)]]
                       ++ providerParams)\<rparr>)"

definition qdrant_query_one ::
  "'w transport \<Rightarrow> host \<Rightarrow> string \<Rightarrow> js \<Rightarrow> js \<Rightarrow> js \<Rightarrow> jsobj \<Rightarrow> (js, 'w) io" where
  "qdrant_query_one fetch h collectionId searchText topK threshold settings =
     io_catch
       (io_bind (await_fetch fetch
                   (qdrant_query_multi_request h collectionId searchText topK threshold settings))
          (\<lambda>response.
             if ok response
             then io_bind (await_json response) (\<lambda>data. io_lift (plugin_format_multi data))
             else io_return empty_result))
       (\<lambda>error. io_return empty_result)"

definition qdrant_queryMultipleCollections ::
  "'w transport \<Rightarrow> host \<Rightarrow> string list \<Rightarrow> js \<Rightarrow> js \<Rightarrow> js \<Rightarrow> jsobj \<Rightarrow> (js, 'w) io" where
  "qdrant_queryMultipleCollections fetch h collectionIds searchText topK threshold settings =
     io_bind
       (io_for collectionIds
          (\<lambda>collectionId results.
             io_bind (qdrant_query_one fetch h collectionId searchText topK threshold settings)
               (\<lambda>r. io_return (js_assign results collectionId r)))
          Map.empty)
       (\<lambda>results. io_return (JObj results))"

definition qdrant_purge_request :: "js \<Rightarrow> jsobj \<Rightarrow> request" where
  "qdrant_purge_request collectionId settings =
     (let t = qdrant_parseCollectionId collectionId
      in \<lparr>url = Path ''/api/plugins/similharity/chunks/purge'', query = Map.empty,
          http_method = ''POST'',
          body = JObj [''backend'' \<mapsto> JStr ''qdrant'',
                       ''collectionId'' \<mapsto> JStr ''vecthare_main'',
                       ''source'' \<mapsto> js_or (field settings ''source'') (JStr ''transformers''),
                       ''model'' \<mapsto> getModelFromSettings settings,
                       ''filters'' \<mapsto> JObj [''type'' \<mapsto> JStr (type t),
                                           ''sourceId'' \<mapsto> JStr (sourceId t)]]\<rparr>)"

definition qdrant_purgeVectorIndex :: "'w transport \<Rightarrow> js \<Rightarrow> jsobj \<Rightarrow> (unit, 'w) io" where
  "qdrant_purgeVectorIndex fetch collectionId settings =
     io_bind (await_fetch fetch (qdrant_purge_request collectionId settings))
       (\<lambda>response.
          if \<not> ok response
          then io_throw (HttpError ''[Qdrant] Failed to purge collection'' (status response))
          else io_return ())"

definition qdrant_purge_all_request :: "jsobj \<Rightarrow> request" where
  "qdrant_purge_all_request settings =
     \<lparr>url = Path ''/api/plugins/similharity/chunks/purge'', query = Map.empty,
      http_method = ''POST'',
      body = JObj [''backend'' \<mapsto> JStr ''qdrant'',
                   ''collectionId'' \<mapsto> JStr ''vecthare_main'',
                   ''source'' \<mapsto> js_or (field settings ''source'') (JStr ''transformers''),
                   ''model'' \<mapsto> getModelFromSettings settings]\<rparr>"

definition qdrant_purgeAllVectorIndexes :: "'w transport \<Rightarrow> jsobj \<Rightarrow> (unit, 'w) io" where
  "qdrant_purgeAllVectorIndexes fetch settings =
     io_bind (await_fetch fetch (qdrant_purge_all_request settings))
       (\<lambda>response.
          if \<not> ok response
          then io_throw (HttpError ''[Qdrant] Failed to purge all collections'' (status response))
          else io_return ())"

subsection \<open>MilvusBackend\<close>

definition milvus_health_request :: request where
  "milvus_health_request =
     \<lparr>url = Path ''/api/plugins/similharity/backend/health/milvus'', query = Map.empty,
      http_method = ''GET'', body = JUndefined\<rparr>"

definition milvus_healthCheck :: "'w transport \<Rightarrow> (bool, 'w) io" where
  "milvus_healthCheck fetch =
     io_catch
       (io_bind (await_fetch fetch milvus_health_request) (\<lambda>response.
          if \<not> ok response then io_return False
          else io_bind (await_json response) (\<lambda>data.
                 io_bind (io_lift (js_prop data ''healthy'')) (\<lambda>healthy.
                   io_return (healthy = JBool True)))))
       (\<lambda>error. io_return False)"

definition milvus_query_request ::
  "host \<Rightarrow> js \<Rightarrow> js \<Rightarrow> js \<Rightarrow> jsobj \<Rightarrow> request" where
  "milvus_query_request h collectionId searchText topK settings =
     (let t = milvus_parseCollectionId collectionId;
          providerParams = getProviderSpecificParams h settings True
      in \<lparr>url = Path ''/api/plugins/similharity/chunks/query'', query = Map.empty,
          http_method = ''POST'',
          body = JObj ([''backend'' \<mapsto> JStr ''milvus'',
                        ''collectionId'' \<mapsto> JStr ''vecthare_main'',
                        ''searchText'' \<mapsto> searchText,
                        ''topK'' \<mapsto> topK,
                        ''threshold'' \<mapsto> JNum 0,
                        ''source'' \<mapsto> js_or (field settings ''source'') (JStr ''transformers''),
                        ''model'' \<mapsto> getModelFromSettings settings,
                        ''filters'' \<mapsto> JObj [''type'' \<mapsto> JStr (type t),
                                            ''sourceId'' \<mapsto> JStr (sourceId t)]]
                       ++ providerParams)\<rparr>)"

definition milvus_queryCollection ::
  "'w transport \<Rightarrow> host \<Rightarrow> js \<Rightarrow> js \<Rightarrow> js \<Rightarrow> jsobj \<Rightarrow> (js, 'w) io" where
  "milvus_queryCollection fetch h collectionId searchText topK settings =
     io_bind (await_fetch fetch (milvus_query_request h collectionId searchText topK settings))
       (\<lambda>response.
          if \<not> ok response
          then io_throw (HttpError ''[Milvus] Failed to query collection'' (status response))
          else io_bind (await_json response) (\<lambda>data. io_lift (plugin_format data)))"

definition milvus_purge_request :: "js \<Rightarrow> jsobj \<Rightarrow> request" where
  "milvus_purge_request collectionId settings =
     (let t = milvus_parseCollectionId collectionId
      in \<lparr>url = Path ''/api/plugins/similharity/chunks/purge'', query = Map.empty,
          http_method = ''POST'',
          body = JObj [''backend'' \<mapsto> JStr ''milvus'',
                       ''collectionId'' \<mapsto> JStr ''vecthare_main'',
                       ''source'' \<mapsto> js_or (field settings ''source'') (JStr ''transformers''),
                       ''model'' \<mapsto> getModelFromSettings settings,
                       ''filters'' \<mapsto> JObj [''type'' \<mapsto> JStr (type t),
                                           ''sourceId'' \<mapsto> JStr (sourceId t)]]\<rparr>)"

definition milvus_purgeVectorIndex :: "'w transport \<Rightarrow> js \<Rightarrow> jsobj \<Rightarrow> (unit, 'w) io" where
  "milvus_purgeVectorIndex fetch collectionId settings =
     io_bind (await_fetch fetch (milvus_purge_request collectionId settings))
       (\<lambda>response.
          if \<not> ok response
          then io_throw (HttpError ''[Milvus] Failed to purge collection'' (status response))
          else io_return ())"

definition milvus_purge_all_request :: "jsobj \<Rightarrow> request" where
  "milvus_purge_all_request settings =
     \<lparr>url = Path ''/api/plugins/similharity/chunks/purge'', query = Map.empty,
      http_method = ''POST'',
      body = JObj [''backend'' \<mapsto> JStr ''milvus'',
                   ''collectionId'' \<mapsto> JStr ''vecthare_main'',
                   ''source'' \<mapsto> js_or (field settings ''source'') (JStr ''transformers''),
                   ''model'' \<mapsto> getModelFromSettings settings]\<rparr>"

definition milvus_purgeAllVectorIndexes :: "'w transport \<Rightarrow> jsobj \<Rightarrow> (unit, 'w) io" where
  "milvus_purgeAllVectorIndexes fetch settings =
     io_bind (await_fetch fetch (milvus_purge_all_request settings))
       (\<lambda>response.
          if \<not> ok response
          then io_throw (HttpError ''[Milvus] Failed to purge all collections'' (status response))
          else io_return ())"

section \<open>Transports for the examples\<close>

text \<open>
  Two transports on which the operations are run in the examples: one that answers
  every request with the same result, and one that also records the requests it
  receives, in order.
\<close>

definition answering :: "fetch_result \<Rightarrow> unit transport" where
  "answering a = (\<lambda>req w. (a, w))"

definition recording :: "(request \<Rightarrow> fetch_result) \<Rightarrow> (request list) transport" where
  "recording answer = (\<lambda>req reqs. (answer req, reqs @ [req]))"

definition example_host :: host where
  "example_host =
     \<lparr>extension_settings_apiUrl = JStr ''http://localhost:5100'',
      extension_settings_apiKey = JStr ''key'',
      server_urls_OLLAMA = JStr ''http://localhost:11434'',
      server_urls_LLAMACPP = JStr ''http://localhost:8080'',
      server_urls_VLLM = JStr ''http://localhost:8000'',
      secret_state_bananabread_api_key = NoSecret,
      oai_settings_vertexai_auth_mode = JStr ''express'',
      oai_settings_vertexai_region = JStr ''us-central1'',
      oai_settings_vertexai_express_project_id = JUndefined\<rparr>"

text \<open>
  A server on which the plugin is not installed: the native list path answers with two
  hashes, every other request fails.
\<close>

definition native_only_transport :: "request \<Rightarrow> fetch_result" where
  "native_only_transport req =
     (if url req = Path ''/api/vector/list''
      then Resolved \<lparr>status = 200, json_body = Some (JArr [JNum 11, JNum 22])\<rparr>
      else Rejected)"

text \<open>
  A server on which the queries of the collection \<^verbatim>\<open>vh:chat:a\<close> succeed and every
  other query fails: the native query of all collections at once is answered with 404,
  the native query of another collection with 500, and the plugin's query for another
  tenant is rejected.
\<close>

definition b_fails_transport :: "request \<Rightarrow> fetch_result" where
  "b_fails_transport req =
     (if url req = Path ''/api/vector/query-multi''
      then Resolved \<lparr>status = 404, json_body = None\<rparr>
      else if url req = Path ''/api/vector/query''
      then (if body_field req ''collectionId'' = Some (JStr ''vh:chat:a'')
            then Resolved \<lparr>status = 200, json_body = Some (JObj
                   [''hashes'' \<mapsto> JArr [JNum 7],
                    ''metadata'' \<mapsto> JArr [JObj [''text'' \<mapsto> JStr ''t'']]])\<rparr>
            else Resolved \<lparr>status = 500, json_body = None\<rparr>)
      else (case body_field req ''filters'' of
              Some (JObj f) \<Rightarrow>
                (if f ''sourceId'' = Some (JStr ''a'')
                 then Resolved \<lparr>status = 200, json_body = Some (JObj
                        [''results'' \<mapsto> JArr [JObj [''hash'' \<mapsto> JNum 7, ''text'' \<mapsto> JStr ''t'',
                                                   ''score'' \<mapsto> JNum (9/10)]]])\<rparr>
                 else Rejected)
            | _ \<Rightarrow> Rejected))"

section \<open>Properties of the collection identifier codec\<close>

lemma js_split_nonempty: "js_split d s \<noteq> []"
  by (induction s) (auto split: list.splits)

lemma js_join_Cons: "ps \<noteq> [] \<Longrightarrow> js_join d (p # ps) = p @ d # js_join d ps"
  by (cases ps) auto

lemma js_join_split: "js_join d (js_split d s) = s"
proof (induction s)
  case Nil
  show ?case by simp
next
  case (Cons c cs)
  show ?case
  proof (cases "c = d")
    case True
    with Cons show ?thesis by (simp add: js_join_Cons js_split_nonempty)
  next
    case False
    obtain p ps where ps: "js_split d cs = p # ps"
      using js_split_nonempty [of d cs] by (cases "js_split d cs") auto
    with Cons False show ?thesis by (cases ps) auto
  qed
qed

lemma js_split_append: "d \<notin> set a \<Longrightarrow> js_split d (a @ d # b) = a # js_split d b"
  by (induction a) auto

lemma js_split_head: "js_split d s ! 0 = takeWhile (\<lambda>c. c \<noteq> d) s"
  by (induction s) (auto split: list.splits simp: js_split_nonempty)

lemma js_join_three:
  assumes "length ps \<ge> 3"
  shows "js_join d ps = ps ! 0 @ d # ps ! 1 @ d # js_join d (drop 2 ps)"
proof -
  from assms obtain p q r rs where "ps = p # q # r # rs"
    by (cases ps; cases "tl ps"; cases "tl (tl ps)") auto
  then show ?thesis by simp
qed

text \<open>A string with at least three pieces has the shape \<open>p d t d s\<close>.\<close>

lemma js_split_shape:
  assumes "length (js_split d x) \<ge> 3" and "js_split d x ! 0 = p"
  shows "\<exists>t s. x = p @ d # t @ d # s"
proof -
  have "x = js_join d (js_split d x)"
    by (simp add: js_join_split)
  also have "\<dots> = p @ d # js_split d x ! 1 @ d # js_join d (drop 2 (js_split d x))"
    using js_join_three [OF assms(1), of d] assms(2) by simp
  finally show ?thesis by blast
qed

lemma milvus_parse_eq_qdrant: "milvus_parseCollectionId = qdrant_parseCollectionId"
  by (rule ext) (simp add: qdrant_parseCollectionId_def milvus_parseCollectionId_def)

lemma qdrant_parse_current:
  assumes "CHR '':'' \<notin> set t"
  shows "qdrant_parseCollectionId (JStr (''vh:'' @ t @ '':'' @ s)) = \<lparr>type = t, sourceId = s\<rparr>"
proof -
  have "js_split CHR '':'' (''vh:'' @ t @ '':'' @ s) = ''vh'' # t # js_split CHR '':'' s"
    using js_split_append [of "CHR '':''" "''vh''" "t @ '':'' @ s"]
      js_split_append [OF assms, of s] by simp
  moreover have "length (js_split CHR '':'' s) \<ge> 1"
    using js_split_nonempty [of "CHR '':''" s] by (cases "js_split CHR '':'' s") auto
  ultimately show ?thesis
    by (simp add: qdrant_parseCollectionId_def Let_def js_join_split)
qed

lemma qdrant_parse_legacy:
  assumes "CHR ''_'' \<notin> set t"
  shows "qdrant_parseCollectionId (JStr (''vecthare_'' @ t @ ''_'' @ s)) =
           \<lparr>type = t, sourceId = s\<rparr>"
proof -
  have nocur: "js_split CHR '':'' (''vecthare_'' @ t @ ''_'' @ s) ! 0 \<noteq> ''vh''"
    by (simp only: js_split_head) simp
  have "js_split CHR ''_'' (''vecthare_'' @ t @ ''_'' @ s) =
          ''vecthare'' # t # js_split CHR ''_'' s"
    using js_split_append [of "CHR ''_''" "''vecthare''" "t @ ''_'' @ s"]
      js_split_append [OF assms, of s] by simp
  moreover have "length (js_split CHR ''_'' s) \<ge> 1"
    using js_split_nonempty [of "CHR ''_''" s] by (cases "js_split CHR ''_'' s") auto
  ultimately show ?thesis
    using nocur by (simp add: qdrant_parseCollectionId_def Let_def js_join_split)
qed

lemma qdrant_parse_other:
  assumes "\<forall>t s. x \<noteq> ''vh:'' @ t @ '':'' @ s"
    and "\<forall>t s. x \<noteq> ''vecthare_'' @ t @ ''_'' @ s"
    and "x \<noteq> []"
  shows "qdrant_parseCollectionId (JStr x) = \<lparr>type = ''chat'', sourceId = x\<rparr>"
proof -
  have a: "(length (js_split CHR '':'' x) \<ge> 3 \<and> js_split CHR '':'' x ! 0 = ''vh'') = False"
    using js_split_shape [of "CHR '':''" x "''vh''"] assms(1) by auto
  have b: "(length (js_split CHR ''_'' x) \<ge> 3 \<and> js_split CHR ''_'' x ! 0 = ''vecthare'')
             = False"
    using js_split_shape [of "CHR ''_''" x "''vecthare''"] assms(2) by auto
  show ?thesis
    using assms(3) by (simp add: qdrant_parseCollectionId_def Let_def a b)
qed

lemma qdrant_parse_not_string:
  "typeof v \<noteq> ''string'' \<Longrightarrow>
     qdrant_parseCollectionId v = \<lparr>type = ''unknown'', sourceId = ''unknown''\<rparr>"
  by (simp add: qdrant_parseCollectionId_def)

lemma qdrant_parse_empty:
  "qdrant_parseCollectionId (JStr []) = \<lparr>type = ''unknown'', sourceId = ''unknown''\<rparr>"
  by (simp add: qdrant_parseCollectionId_def)

text \<open>
  C2, as the code has it. The decoder is a total function: every branch of the source
  returns a pair, and no operation it uses can throw. For either multitenant adapter,
  an id \<^verbatim>\<open>vh:<type>:<sourceId>\<close> whose type holds no colon decodes to (type,
  sourceId), the source id keeping its colons; an id \<^verbatim>\<open>vecthare_<type>_<sourceId>\<close>
  whose type holds no underscore decodes to (type, sourceId), the source id keeping
  its underscores; every other non-empty string decodes to the type \<^verbatim>\<open>chat\<close> and the
  whole string; and the empty string and every value that is not a string decode to
  (\<^verbatim>\<open>unknown\<close>, \<^verbatim>\<open>unknown\<close>), by the guard at the head of the function.
\<close>

theorem parseCollectionId_decodes:
  assumes "parse = qdrant_parseCollectionId \<or> parse = milvus_parseCollectionId"
  shows "(CHR '':'' \<notin> set t \<longrightarrow>
            parse (JStr (''vh:'' @ t @ '':'' @ s)) = \<lparr>type = t, sourceId = s\<rparr>) \<and>
         (CHR ''_'' \<notin> set t' \<longrightarrow>
            parse (JStr (''vecthare_'' @ t' @ ''_'' @ s')) = \<lparr>type = t', sourceId = s'\<rparr>) \<and>
         ((\<forall>a b. x \<noteq> ''vh:'' @ a @ '':'' @ b) \<and> (\<forall>a b. x \<noteq> ''vecthare_'' @ a @ ''_'' @ b)
            \<and> x \<noteq> [] \<longrightarrow>
            parse (JStr x) = \<lparr>type = ''chat'', sourceId = x\<rparr>) \<and>
         parse (JStr []) = \<lparr>type = ''unknown'', sourceId = ''unknown''\<rparr> \<and>
         (typeof v \<noteq> ''string'' \<longrightarrow>
            parse v = \<lparr>type = ''unknown'', sourceId = ''unknown''\<rparr>)"
proof -
  from assms have p: "parse = qdrant_parseCollectionId"
    by (auto simp: milvus_parse_eq_qdrant)
  show ?thesis
    unfolding p
    using qdrant_parse_current [of t s] qdrant_parse_legacy [of t' s'] qdrant_parse_other [of x]
      qdrant_parse_not_string [of v] qdrant_parse_empty
    by blast
qed

theorem parseCollectionId_decodes_witness:
  "milvus_parseCollectionId (JStr ''vh:chat:abc:def'') = \<lparr>type = ''chat'', sourceId = ''abc:def''\<rparr> \<and>
   milvus_parseCollectionId (JStr ''vecthare_doc_char_456'') =
     \<lparr>type = ''doc'', sourceId = ''char_456''\<rparr> \<and>
   milvus_parseCollectionId (JStr ''garbage'') = \<lparr>type = ''chat'', sourceId = ''garbage''\<rparr> \<and>
   milvus_parseCollectionId (JStr []) = \<lparr>type = ''unknown'', sourceId = ''unknown''\<rparr> \<and>
   milvus_parseCollectionId JUndefined = \<lparr>type = ''unknown'', sourceId = ''unknown''\<rparr>"
  using parseCollectionId_decodes [of milvus_parseCollectionId "''chat''" "''abc:def''"
      "''doc''" "''char_456''" "''garbage''" JUndefined]
  by simp

text \<open>
  C2 as it is stated fails on the inputs that the guard catches: the empty string has
  neither of the two shapes, and it decodes to (\<^verbatim>\<open>unknown\<close>, \<^verbatim>\<open>unknown\<close>), not to
  (\<^verbatim>\<open>chat\<close>, the input); so does a value that is not a string, here null.
\<close>

theorem parseCollectionId_fallback_counterexample:
  "(\<forall>a b. ([] :: string) \<noteq> ''vh:'' @ a @ '':'' @ b) \<and>
   (\<forall>a b. ([] :: string) \<noteq> ''vecthare_'' @ a @ ''_'' @ b) \<and>
   qdrant_parseCollectionId (JStr []) = \<lparr>type = ''unknown'', sourceId = ''unknown''\<rparr> \<and>
   qdrant_parseCollectionId (JStr []) \<noteq> \<lparr>type = ''chat'', sourceId = []\<rparr> \<and>
   milvus_parseCollectionId (JStr []) \<noteq> \<lparr>type = ''chat'', sourceId = []\<rparr> \<and>
   qdrant_parseCollectionId JNull = \<lparr>type = ''unknown'', sourceId = ''unknown''\<rparr>"
  by (simp add: qdrant_parseCollectionId_def milvus_parseCollectionId_def)

text \<open>
  C10: the two decoders, written out twice in the source, are the same function: on
  every value, a string of any shape or not a string (a missing id is undefined), they
  return the same pair, so the two adapters derive the same tenant filter from the same
  collection id.
\<close>

theorem parseCollectionId_qdrant_milvus_equal:
  "qdrant_parseCollectionId v = milvus_parseCollectionId v"
  by (simp add: qdrant_parseCollectionId_def milvus_parseCollectionId_def)

theorem parseCollectionId_qdrant_milvus_equal_witness:
  "qdrant_parseCollectionId (JStr ''vh:lorebook:world_info_123'') =
     milvus_parseCollectionId (JStr ''vh:lorebook:world_info_123'') \<and>
   milvus_parseCollectionId (JStr ''vh:lorebook:world_info_123'') =
     \<lparr>type = ''lorebook'', sourceId = ''world_info_123''\<rparr> \<and>
   qdrant_parseCollectionId JUndefined = milvus_parseCollectionId JUndefined \<and>
   qdrant_parseCollectionId (JNum 7) = milvus_parseCollectionId (JNum 7)"
  using parseCollectionId_qdrant_milvus_equal [of "JStr ''vh:lorebook:world_info_123''"]
    parseCollectionId_qdrant_milvus_equal [of JUndefined]
    parseCollectionId_qdrant_milvus_equal [of "JNum 7"]
  by (simp add: milvus_parseCollectionId_def)

section \<open>Health checks and the native list path\<close>

lemmas io_defs = io_return_def io_throw_def io_lift_def io_bind_def io_catch_def
  await_fetch_def await_json_def

lemma standard_healthCheck_result:
  "standard_healthCheck fetch w =
     (case fetch standard_healthCheck_request w of
        (Rejected, w') \<Rightarrow> (Inr False, w')
      | (Resolved r, w') \<Rightarrow> (Inr (status r = 200 \<or> status r = 500), w'))"
  by (simp add: standard_healthCheck_def io_defs split: prod.splits fetch_result.splits)

lemma plugin_healthCheck_total:
  "\<exists>b. fst (qdrant_healthCheck fetch w) = Inr b"
  "\<exists>b. fst (lancedb_healthCheck fetch w) = Inr b"
  "\<exists>b. fst (milvus_healthCheck fetch w) = Inr b"
  by (auto simp add: qdrant_healthCheck_def lancedb_healthCheck_def milvus_healthCheck_def io_defs
      split: prod.splits fetch_result.splits sum.splits option.splits)

lemma standard_getSavedHashes_500:
  "fst (fetch (standard_list_request h cid settings) w) = Resolved r \<Longrightarrow> status r = 500 \<Longrightarrow>
     fst (standard_getSavedHashes fetch h cid settings w) = Inr []"
  by (auto simp add: standard_getSavedHashes_def io_defs ok_def
      split: prod.splits fetch_result.splits sum.splits option.splits)

text \<open>
  C8. Whatever the transport does (any status, or a network error), \<^verbatim>\<open>healthCheck\<close>
  returns a boolean and throws nothing, on the hybrid adapter and on the three adapters
  of the plugin. On the hybrid adapter it returns true exactly when the native list
  call answers with status 200 or 500, and \<^verbatim>\<open>getSavedHashes\<close> returns the empty list,
  not an error, when the native list call answers with status 500.
\<close>

theorem healthCheck_never_throws:
  "(\<exists>b. fst (standard_healthCheck fetch w) = Inr b) \<and>
   (fst (standard_healthCheck fetch w) = Inr True \<longleftrightarrow>
      (\<exists>r. fst (fetch standard_healthCheck_request w) = Resolved r \<and>
           (status r = 200 \<or> status r = 500))) \<and>
   (\<exists>b. fst (lancedb_healthCheck fetch w) = Inr b) \<and>
   (\<exists>b. fst (qdrant_healthCheck fetch w) = Inr b) \<and>
   (\<exists>b. fst (milvus_healthCheck fetch w) = Inr b) \<and>
   (fst (fetch (standard_list_request h cid settings) w) = Resolved r \<and> status r = 500 \<longrightarrow>
      fst (standard_getSavedHashes fetch h cid settings w) = Inr [])"
  using plugin_healthCheck_total [of fetch w]
    standard_getSavedHashes_500 [of fetch h cid settings w r]
  by (auto simp add: standard_healthCheck_result split: prod.splits fetch_result.splits)

theorem healthCheck_never_throws_witness:
  "fst (standard_healthCheck (answering (Resolved \<lparr>status = 500, json_body = None\<rparr>)) ())
     = Inr True \<and>
   fst (standard_healthCheck (answering (Resolved \<lparr>status = 404, json_body = None\<rparr>)) ())
     = Inr False \<and>
   fst (standard_healthCheck (answering Rejected) ()) = Inr False \<and>
   fst (standard_getSavedHashes (answering (Resolved \<lparr>status = 500, json_body = None\<rparr>))
          example_host (JStr ''vh:chat:a'') Map.empty ()) = Inr []"
  using healthCheck_never_throws [of "answering (Resolved \<lparr>status = 500, json_body = None\<rparr>)" "()"
      example_host "JStr ''vh:chat:a''" Map.empty "\<lparr>status = 500, json_body = None\<rparr>"]
    healthCheck_never_throws [of "answering (Resolved \<lparr>status = 404, json_body = None\<rparr>)" "()"
      example_host JNull Map.empty "\<lparr>status = 404, json_body = None\<rparr>"]
    healthCheck_never_throws [of "answering Rejected" "()"
      example_host JNull Map.empty "\<lparr>status = 404, json_body = None\<rparr>"]
  by (auto simp add: answering_def)

section \<open>The hybrid adapter without the plugin\<close>

lemma standard_initialize_probe_failed:
  assumes "fst (fetch standard_health_request w) = Rejected \<or>
           (\<exists>r. fst (fetch standard_health_request w) = Resolved r \<and> \<not> ok r)"
  shows "fst (standard_initialize fetch settings w) = Inr False"
  using assms
  by (auto simp add: standard_initialize_def io_defs split: prod.splits fetch_result.splits)

lemma standard_listChunks_native:
  "standard_listChunks fetch h False cid settings options w =
     (case standard_getSavedHashes fetch h cid settings w of
        (Inl e, w') \<Rightarrow> (Inl e, w')
      | (Inr hashes, w') \<Rightarrow>
          (Inr (JObj [''items'' \<mapsto> JArr (map (\<lambda>hash. JObj [''hash'' \<mapsto> hash,
                                                           ''text'' \<mapsto> JStr [],
                                                           ''metadata'' \<mapsto> JObj Map.empty]) hashes),
                      ''total'' \<mapsto> JNum (of_nat (length hashes))]), w'))"
  by (simp add: standard_listChunks_def io_return_def io_bind_def split: prod.splits sum.splits)

lemma standard_getStats_native:
  "standard_getStats fetch h False cid settings w =
     (case standard_getSavedHashes fetch h cid settings w of
        (Inl e, w') \<Rightarrow> (Inl e, w')
      | (Inr hashes, w') \<Rightarrow>
          (Inr (JObj [''count'' \<mapsto> JNum (of_nat (length hashes)),
                      ''source'' \<mapsto> JStr ''native'']), w'))"
  by (simp add: standard_getStats_def io_return_def io_bind_def split: prod.splits sum.splits)

text \<open>
  C7. When the probe of the extension failed (the health request was rejected or answered
  with a status that is not a success), \<^verbatim>\<open>initialize\<close> leaves the adapter in the
  state NativeOnly (\<^verbatim>\<open>pluginAvailable\<close> is false), and in that state: \<^verbatim>\<open>listChunks\<close>
  returns the hashes of the native \<^verbatim>\<open>getSavedHashes\<close>, each wrapped with an empty text
  and an empty metadata object, and their number as the total (an error of
  \<^verbatim>\<open>getSavedHashes\<close> is passed on); \<^verbatim>\<open>getChunk\<close> returns null;
  \<^verbatim>\<open>updateChunkText\<close> and \<^verbatim>\<open>updateChunkMetadata\<close> throw the error that says the
  plugin is required, without a request; \<^verbatim>\<open>getStats\<close> returns the count of the native
  hashes; \<^verbatim>\<open>discoverCollections\<close> returns null.
\<close>

theorem native_only_degrades:
  assumes "fst (fetch standard_health_request w0) = Rejected \<or>
           (\<exists>r. fst (fetch standard_health_request w0) = Resolved r \<and> \<not> ok r)"
    and "fst (standard_initialize fetch settings0 w0) = Inr pluginAvailable"
  shows "\<not> pluginAvailable \<and>
    standard_listChunks fetch h pluginAvailable cid settings options w =
      (case standard_getSavedHashes fetch h cid settings w of
         (Inl e, w') \<Rightarrow> (Inl e, w')
       | (Inr hashes, w') \<Rightarrow>
           (Inr (JObj [''items'' \<mapsto> JArr (map (\<lambda>hash. JObj [''hash'' \<mapsto> hash,
                                                            ''text'' \<mapsto> JStr [],
                                                            ''metadata'' \<mapsto> JObj Map.empty]) hashes),
                       ''total'' \<mapsto> JNum (of_nat (length hashes))]), w')) \<and>
    standard_getChunk fetch pluginAvailable cid hash settings w = (Inr JNull, w) \<and>
    standard_updateChunkText fetch pluginAvailable cid hash newText settings w =
      (Inl (Error ''Chunk text editing requires the Similharity plugin''), w) \<and>
    standard_updateChunkMetadata fetch pluginAvailable cid hash metadata settings w =
      (Inl (Error ''Chunk metadata editing requires the Similharity plugin''), w) \<and>
    standard_getStats fetch h pluginAvailable cid settings w =
      (case standard_getSavedHashes fetch h cid settings w of
         (Inl e, w') \<Rightarrow> (Inl e, w')
       | (Inr hashes, w') \<Rightarrow>
           (Inr (JObj [''count'' \<mapsto> JNum (of_nat (length hashes)),
                       ''source'' \<mapsto> JStr ''native'']), w')) \<and>
    standard_discoverCollections fetch pluginAvailable settings w = (Inr JNull, w)"
proof -
  have pa: "pluginAvailable = False"
    using standard_initialize_probe_failed [of fetch w0 settings0] assms by simp
  show ?thesis
    unfolding pa
    by (simp add: standard_listChunks_native standard_getStats_native standard_getChunk_def
        standard_updateChunkText_def standard_updateChunkMetadata_def
        standard_discoverCollections_def io_return_def io_throw_def io_bind_def)
qed

theorem native_only_degrades_witness:
  "fst (standard_initialize (recording native_only_transport) Map.empty []) = Inr False \<and>
   fst (standard_listChunks (recording native_only_transport) example_host False (JStr ''vh:chat:a'')
          Map.empty Map.empty []) =
     Inr (JObj [''items'' \<mapsto> JArr [JObj [''hash'' \<mapsto> JNum 11, ''text'' \<mapsto> JStr [],
                                         ''metadata'' \<mapsto> JObj Map.empty],
                                   JObj [''hash'' \<mapsto> JNum 22, ''text'' \<mapsto> JStr [],
                                         ''metadata'' \<mapsto> JObj Map.empty]],
                ''total'' \<mapsto> JNum 2]) \<and>
   fst (standard_getChunk (recording native_only_transport) False (JStr ''vh:chat:a'') (JNum 11)
          Map.empty []) = Inr JNull \<and>
   fst (standard_updateChunkText (recording native_only_transport) False (JStr ''vh:chat:a'')
          (JNum 11) (JStr ''new'') Map.empty []) =
     Inl (Error ''Chunk text editing requires the Similharity plugin'') \<and>
   fst (standard_getStats (recording native_only_transport) example_host False (JStr ''vh:chat:a'')
          Map.empty []) =
     Inr (JObj [''count'' \<mapsto> JNum 2, ''source'' \<mapsto> JStr ''native''])"
proof -
  have probe: "fst (recording native_only_transport standard_health_request []) = Rejected \<or>
     (\<exists>r. fst (recording native_only_transport standard_health_request []) = Resolved r \<and> \<not> ok r)"
    by (simp add: recording_def native_only_transport_def standard_health_request_def)
  have init: "fst (standard_initialize (recording native_only_transport) Map.empty []) = Inr False"
    by (simp add: standard_initialize_def io_defs recording_def native_only_transport_def
        standard_health_request_def)
  have list: "standard_getSavedHashes (recording native_only_transport) example_host
      (JStr ''vh:chat:a'') Map.empty [] =
      (Inr [JNum 11, JNum 22], [standard_list_request example_host (JStr ''vh:chat:a'') Map.empty])"
    by (simp add: standard_getSavedHashes_def io_defs recording_def native_only_transport_def
        standard_list_request_def ok_def Let_def)
  show ?thesis
    using probe init
      native_only_degrades [of "recording native_only_transport" "[]" Map.empty False
        example_host "JStr ''vh:chat:a''" Map.empty Map.empty "[]" "JNum 11" "JStr ''new''" JNull]
    by (simp add: list)
qed

section \<open>Purging on the multitenant adapters\<close>

lemma purge_all_issued:
  "snd (qdrant_purgeAllVectorIndexes (recording answer) settings reqs) =
     reqs @ [qdrant_purge_all_request settings]"
  "snd (milvus_purgeAllVectorIndexes (recording answer) settings reqs) =
     reqs @ [milvus_purge_all_request settings]"
  by (auto simp add: qdrant_purgeAllVectorIndexes_def milvus_purgeAllVectorIndexes_def io_defs
      recording_def split: prod.splits fetch_result.splits)

lemma purge_issued:
  "snd (qdrant_purgeVectorIndex (recording answer) cid settings reqs) =
     reqs @ [qdrant_purge_request cid settings]"
  "snd (milvus_purgeVectorIndex (recording answer) cid settings reqs) =
     reqs @ [milvus_purge_request cid settings]"
  by (auto simp add: qdrant_purgeVectorIndex_def milvus_purgeVectorIndex_def io_defs
      recording_def split: prod.splits fetch_result.splits)

text \<open>
  C4. On the Qdrant and the Milvus adapter, whatever the transport answers and whatever
  the settings are, \<^verbatim>\<open>purgeAllVectorIndexes\<close> issues one request: a purge of the shared
  collection \<^verbatim>\<open>vecthare_main\<close> whose body has no member \<^verbatim>\<open>filters\<close> (its members
  are the backend, the collection, the source and the model), so that the purge it asks
  for is restricted to no tenant. \<^verbatim>\<open>purgeVectorIndex\<close> issues one request
  too, on the same collection, and its body always has the member \<^verbatim>\<open>filters\<close>, made of
  the type and the source id decoded from the collection id. (What the request removes
  is done by the plugin, which is not part of this repository; the adapter's part is the
  request.)
\<close>

theorem purge_all_omits_tenant_filter:
  "snd (qdrant_purgeAllVectorIndexes (recording answer) settings []) =
     [qdrant_purge_all_request settings] \<and>
   url (qdrant_purge_all_request settings) = Path ''/api/plugins/similharity/chunks/purge'' \<and>
   body_field (qdrant_purge_all_request settings) ''backend'' = Some (JStr ''qdrant'') \<and>
   body_field (qdrant_purge_all_request settings) ''collectionId'' = Some (JStr ''vecthare_main'') \<and>
   body_field (qdrant_purge_all_request settings) ''filters'' = None \<and>
   {k. body_field (qdrant_purge_all_request settings) k \<noteq> None} =
     {''backend'', ''collectionId'', ''source'', ''model''} \<and>
   snd (milvus_purgeAllVectorIndexes (recording answer) settings []) =
     [milvus_purge_all_request settings] \<and>
   url (milvus_purge_all_request settings) = Path ''/api/plugins/similharity/chunks/purge'' \<and>
   body_field (milvus_purge_all_request settings) ''backend'' = Some (JStr ''milvus'') \<and>
   body_field (milvus_purge_all_request settings) ''collectionId'' = Some (JStr ''vecthare_main'') \<and>
   body_field (milvus_purge_all_request settings) ''filters'' = None \<and>
   {k. body_field (milvus_purge_all_request settings) k \<noteq> None} =
     {''backend'', ''collectionId'', ''source'', ''model''} \<and>
   snd (qdrant_purgeVectorIndex (recording answer) cid settings []) =
     [qdrant_purge_request cid settings] \<and>
   body_field (qdrant_purge_request cid settings) ''collectionId'' = Some (JStr ''vecthare_main'') \<and>
   body_field (qdrant_purge_request cid settings) ''filters'' =
     Some (JObj [''type'' \<mapsto> JStr (type (qdrant_parseCollectionId cid)),
                 ''sourceId'' \<mapsto> JStr (sourceId (qdrant_parseCollectionId cid))]) \<and>
   snd (milvus_purgeVectorIndex (recording answer) cid settings []) =
     [milvus_purge_request cid settings] \<and>
   body_field (milvus_purge_request cid settings) ''collectionId'' = Some (JStr ''vecthare_main'') \<and>
   body_field (milvus_purge_request cid settings) ''filters'' =
     Some (JObj [''type'' \<mapsto> JStr (type (milvus_parseCollectionId cid)),
                 ''sourceId'' \<mapsto> JStr (sourceId (milvus_parseCollectionId cid))])"
proof -
  have members:
    "{k. body_field (qdrant_purge_all_request settings) k \<noteq> None} =
       {''backend'', ''collectionId'', ''source'', ''model''}"
    "{k. body_field (milvus_purge_all_request settings) k \<noteq> None} =
       {''backend'', ''collectionId'', ''source'', ''model''}"
    by (auto simp add: body_field_def qdrant_purge_all_request_def milvus_purge_all_request_def
        split: if_splits)
  show ?thesis
    using members
    by (simp add: purge_all_issued purge_issued body_field_def
        qdrant_purge_all_request_def milvus_purge_all_request_def
        qdrant_purge_request_def milvus_purge_request_def Let_def)
qed

theorem purge_all_omits_tenant_filter_witness:
  "map (\<lambda>req. body_field req ''filters'')
     (snd (qdrant_purgeAllVectorIndexes
             (recording (\<lambda>req. Resolved \<lparr>status = 200, json_body = None\<rparr>))
             [''source'' \<mapsto> JStr ''openai''] [])) = [None] \<and>
   map (\<lambda>req. body_field req ''filters'')
     (snd (milvus_purgeAllVectorIndexes
             (recording (\<lambda>req. Resolved \<lparr>status = 200, json_body = None\<rparr>))
             [''source'' \<mapsto> JStr ''openai''] [])) = [None] \<and>
   map (\<lambda>req. body_field req ''filters'')
     (snd (qdrant_purgeVectorIndex
             (recording (\<lambda>req. Resolved \<lparr>status = 200, json_body = None\<rparr>))
             (JStr ''vh:chat:abc'') [''source'' \<mapsto> JStr ''openai''] [])) =
     [Some (JObj [''type'' \<mapsto> JStr ''chat'', ''sourceId'' \<mapsto> JStr ''abc''])] \<and>
   map (\<lambda>req. body_field req ''filters'')
     (snd (milvus_purgeVectorIndex
             (recording (\<lambda>req. Resolved \<lparr>status = 200, json_body = None\<rparr>))
             (JStr ''vecthare_doc_char_456'') [''source'' \<mapsto> JStr ''openai''] [])) =
     [Some (JObj [''type'' \<mapsto> JStr ''doc'', ''sourceId'' \<mapsto> JStr ''char_456''])]"
proof -
  have q: "qdrant_parseCollectionId (JStr ''vh:chat:abc'') = \<lparr>type = ''chat'', sourceId = ''abc''\<rparr>"
    by (simp add: qdrant_parseCollectionId_def Let_def)
  have m: "milvus_parseCollectionId (JStr ''vecthare_doc_char_456'') =
             \<lparr>type = ''doc'', sourceId = ''char_456''\<rparr>"
    by (simp add: milvus_parseCollectionId_def Let_def)
  show ?thesis
    using purge_all_omits_tenant_filter
        [of "\<lambda>req. Resolved \<lparr>status = 200, json_body = None\<rparr>" "[''source'' \<mapsto> JStr ''openai'']"
          "JStr ''vh:chat:abc''"]
      purge_all_omits_tenant_filter
        [of "\<lambda>req. Resolved \<lparr>status = 200, json_body = None\<rparr>" "[''source'' \<mapsto> JStr ''openai'']"
          "JStr ''vecthare_doc_char_456''"]
    by (simp add: q m)
qed

section \<open>The provider parameter resolver\<close>

text \<open>
  C9, as the code has it. \<^verbatim>\<open>getProviderSpecificParams\<close> writes to nothing but the
  object it returns (the embedding is a function of what it reads), and what it reads
  is the settings, the flag and, for six providers, the configuration of the host:
  \<^verbatim>\<open>extension_settings\<close> for extras, the server URL of ollama, llamacpp or vllm when
  the settings select no alternative endpoint, the bananabread secret, and the Vertex AI
  fields of \<^verbatim>\<open>oai_settings\<close>. Two invocations with the same settings and the same flag
  return equal objects whenever the host values read for the provider of the settings
  are the same; for every other provider they return equal objects in any two states of
  the host.
\<close>

theorem getProviderSpecificParams_reads:
  assumes "field settings ''source'' = JStr ''extras'' \<longrightarrow>
             extension_settings_apiUrl h = extension_settings_apiUrl h' \<and>
             extension_settings_apiKey h = extension_settings_apiKey h'"
    and "field settings ''source'' = JStr ''ollama'' \<and> \<not> truthy (field settings ''use_alt_endpoint'')
           \<longrightarrow> server_urls_OLLAMA h = server_urls_OLLAMA h'"
    and "field settings ''source'' = JStr ''llamacpp'' \<and> \<not> truthy (field settings ''use_alt_endpoint'')
           \<longrightarrow> server_urls_LLAMACPP h = server_urls_LLAMACPP h'"
    and "field settings ''source'' = JStr ''vllm'' \<and> \<not> truthy (field settings ''use_alt_endpoint'')
           \<longrightarrow> server_urls_VLLM h = server_urls_VLLM h'"
    and "field settings ''source'' = JStr ''bananabread'' \<longrightarrow>
           secret_state_bananabread_api_key h = secret_state_bananabread_api_key h'"
    and "field settings ''source'' = JStr ''vertexai'' \<longrightarrow>
           oai_settings_vertexai_auth_mode h = oai_settings_vertexai_auth_mode h' \<and>
           oai_settings_vertexai_region h = oai_settings_vertexai_region h' \<and>
           oai_settings_vertexai_express_project_id h = oai_settings_vertexai_express_project_id h'"
  shows "getProviderSpecificParams h settings isQuery = getProviderSpecificParams h' settings isQuery"
  using assms by (simp add: getProviderSpecificParams_def Let_def)

theorem getProviderSpecificParams_reads_witness:
  "getProviderSpecificParams example_host [''source'' \<mapsto> JStr ''cohere''] True =
     getProviderSpecificParams (example_host\<lparr>extension_settings_apiUrl := JStr ''http://b''\<rparr>)
       [''source'' \<mapsto> JStr ''cohere''] True \<and>
   getProviderSpecificParams example_host [''source'' \<mapsto> JStr ''cohere''] True ''input_type'' =
     Some (JStr ''search_query'') \<and>
   getProviderSpecificParams example_host
       [''source'' \<mapsto> JStr ''ollama'', ''use_alt_endpoint'' \<mapsto> JBool True,
        ''alt_endpoint_url'' \<mapsto> JStr ''http://alt''] False =
     getProviderSpecificParams (example_host\<lparr>server_urls_OLLAMA := JStr ''http://other''\<rparr>)
       [''source'' \<mapsto> JStr ''ollama'', ''use_alt_endpoint'' \<mapsto> JBool True,
        ''alt_endpoint_url'' \<mapsto> JStr ''http://alt''] False \<and>
   getProviderSpecificParams example_host [''source'' \<mapsto> JStr ''extras''] False =
     getProviderSpecificParams (example_host\<lparr>server_urls_OLLAMA := JStr ''http://other''\<rparr>)
       [''source'' \<mapsto> JStr ''extras''] False \<and>
   getProviderSpecificParams example_host [''source'' \<mapsto> JStr ''extras''] False ''extrasUrl'' =
     Some (JStr ''http://localhost:5100'')"
  using getProviderSpecificParams_reads [of "[''source'' \<mapsto> JStr ''cohere'']" example_host
      "example_host\<lparr>extension_settings_apiUrl := JStr ''http://b''\<rparr>" True]
    getProviderSpecificParams_reads [of "[''source'' \<mapsto> JStr ''ollama'', ''use_alt_endpoint'' \<mapsto> JBool True,
        ''alt_endpoint_url'' \<mapsto> JStr ''http://alt'']" example_host
      "example_host\<lparr>server_urls_OLLAMA := JStr ''http://other''\<rparr>" False]
    getProviderSpecificParams_reads [of "[''source'' \<mapsto> JStr ''extras'']" example_host
      "example_host\<lparr>server_urls_OLLAMA := JStr ''http://other''\<rparr>" False]
  by (simp add: field_def)
    (simp add: getProviderSpecificParams_def field_def example_host_def)

text \<open>
  C9 as it is stated (the same settings and the same flag give equal objects, always)
  fails for the provider extras between two states of the host that differ in
  \<^verbatim>\<open>extension_settings.apiUrl\<close>.
\<close>

theorem getProviderSpecificParams_host_counterexample:
  "getProviderSpecificParams (example_host\<lparr>extension_settings_apiUrl := JStr ''http://a''\<rparr>)
       [''source'' \<mapsto> JStr ''extras''] False \<noteq>
   getProviderSpecificParams (example_host\<lparr>extension_settings_apiUrl := JStr ''http://b''\<rparr>)
       [''source'' \<mapsto> JStr ''extras''] False \<and>
   getProviderSpecificParams (example_host\<lparr>extension_settings_apiUrl := JStr ''http://a''\<rparr>)
       [''source'' \<mapsto> JStr ''extras''] False ''extrasUrl'' = Some (JStr ''http://a'') \<and>
   getProviderSpecificParams (example_host\<lparr>extension_settings_apiUrl := JStr ''http://b''\<rparr>)
       [''source'' \<mapsto> JStr ''extras''] False ''extrasUrl'' = Some (JStr ''http://b'')"
proof -
  have a: "getProviderSpecificParams (example_host\<lparr>extension_settings_apiUrl := JStr ''http://a''\<rparr>)
       [''source'' \<mapsto> JStr ''extras''] False ''extrasUrl'' = Some (JStr ''http://a'')"
    by (simp add: getProviderSpecificParams_def field_def)
  have b: "getProviderSpecificParams (example_host\<lparr>extension_settings_apiUrl := JStr ''http://b''\<rparr>)
       [''source'' \<mapsto> JStr ''extras''] False ''extrasUrl'' = Some (JStr ''http://b'')"
    by (simp add: getProviderSpecificParams_def field_def)
  have "getProviderSpecificParams (example_host\<lparr>extension_settings_apiUrl := JStr ''http://a''\<rparr>)
       [''source'' \<mapsto> JStr ''extras''] False \<noteq>
     getProviderSpecificParams (example_host\<lparr>extension_settings_apiUrl := JStr ''http://b''\<rparr>)
       [''source'' \<mapsto> JStr ''extras''] False"
  proof
    assume "getProviderSpecificParams (example_host\<lparr>extension_settings_apiUrl := JStr ''http://a''\<rparr>)
       [''source'' \<mapsto> JStr ''extras''] False =
     getProviderSpecificParams (example_host\<lparr>extension_settings_apiUrl := JStr ''http://b''\<rparr>)
       [''source'' \<mapsto> JStr ''extras''] False"
    then have "getProviderSpecificParams (example_host\<lparr>extension_settings_apiUrl := JStr ''http://a''\<rparr>)
       [''source'' \<mapsto> JStr ''extras''] False ''extrasUrl'' =
     getProviderSpecificParams (example_host\<lparr>extension_settings_apiUrl := JStr ''http://b''\<rparr>)
       [''source'' \<mapsto> JStr ''extras''] False ''extrasUrl''"
      by simp
    with a b show False by simp
  qed
  with a b show ?thesis by simp
qed

section \<open>Querying one collection\<close>

lemma providerParams_none:
  assumes "k \<notin> {''extrasUrl'', ''extrasKey'', ''input_type'', ''apiUrl'', ''keep'', ''apiKey'',
      ''api'', ''vertexai_auth_mode'', ''vertexai_region'', ''vertexai_express_project_id''}"
  shows "getProviderSpecificParams h settings isQuery k = None"
  using assms
  by (simp add: getProviderSpecificParams_def Let_def split: secret_entry.splits option.splits)

lemma map_exn_zip:
  "length is = length xs \<Longrightarrow> map_exn (\<lambda>(idx, x). g x) (zip is xs) = map_exn g xs"
  by (induction "is" xs rule: list_induct2) (auto split: sum.splits)

lemma js_prop_object: "js_prop (JObj m) k = Inr (field m k)"
  by (simp add: js_prop_def)

lemma js_map_objects:
  assumes "\<And>m. g (JObj m) = Inr (f m)"
  shows "js_map (JArr (map JObj ms)) (\<lambda>idx. g) = Inr (map f ms)"
proof -
  have "map_exn g (map JObj ms) = Inr (map f ms)"
    by (induction ms) (auto simp: assms)
  then show ?thesis
    using map_exn_zip [of "[0..<length (map JObj ms)]" "map JObj ms" g]
    by (simp add: js_map_def)
qed

lemma plugin_entry_object:
  "plugin_entry (JObj m) =
     Inr (JObj ([''hash'' \<mapsto> field m ''hash'', ''text'' \<mapsto> field m ''text'',
                 ''score'' \<mapsto> field m ''score''] ++ own_props (field m ''metadata'')))"
  by (simp add: plugin_entry_def js_prop_object)

lemma plugin_format_objects:
  assumes "d ''results'' = Some (JArr (map JObj ms))"
  shows "plugin_format (JObj d) =
     Inr (JObj [''hashes'' \<mapsto> JArr (map (\<lambda>m. field m ''hash'') ms),
                ''metadata'' \<mapsto> JArr (map (\<lambda>m. JObj
                   ([''hash'' \<mapsto> field m ''hash'', ''text'' \<mapsto> field m ''text'',
                     ''score'' \<mapsto> field m ''score''] ++ own_props (field m ''metadata''))) ms)])"
proof -
  have h: "js_map (JArr (map JObj ms)) (\<lambda>idx r. js_prop r ''hash'') =
             Inr (map (\<lambda>m. field m ''hash'') ms)"
    by (rule js_map_objects) (rule js_prop_object)
  have e: "js_map (JArr (map JObj ms)) (\<lambda>idx. plugin_entry) =
             Inr (map (\<lambda>m. JObj
                   ([''hash'' \<mapsto> field m ''hash'', ''text'' \<mapsto> field m ''text'',
                     ''score'' \<mapsto> field m ''score''] ++ own_props (field m ''metadata''))) ms)"
    by (rule js_map_objects) (rule plugin_entry_object)
  show ?thesis
    using assms by (simp add: plugin_format_def plugin_format_array_def js_prop_object field_def h e)
qed


lemma map_exn_zip_objects:
  assumes "\<And>i m. g i (JObj m) = Inr (f i m)"
  shows "map_exn (\<lambda>(idx, x). g idx x) (zip is (map JObj ms)) =
           Inr (map (\<lambda>(i, m). f i m) (zip is ms))"
proof (induction ms arbitrary: "is")
  case Nil
  show ?case by simp
next
  case (Cons m ms)
  show ?case by (cases "is") (simp_all add: assms Cons)
qed

lemma js_map_indexed_objects:
  assumes "\<And>i m. g i (JObj m) = Inr (f i m)"
  shows "js_map (JArr (map JObj ms)) g =
           Inr (map (\<lambda>(i, m). f i m) (zip [0..<length ms] ms))"
  using map_exn_zip_objects [of g f "[0..<length ms]" ms, OF assms]
  by (simp add: js_map_def)

lemma standard_entry_object:
  "standard_entry hashes idx (JObj m) =
     Inr (JObj ([''hash'' \<mapsto> opt_index hashes idx, ''text'' \<mapsto> field m ''text'',
                 ''score'' \<mapsto> js_or (field m ''score'') (JNum 0)] ++ m))"
  by (simp add: standard_entry_def js_prop_object)

lemma standard_format_objects:
  assumes "d ''hashes'' = Some (JArr hs)" and "d ''metadata'' = Some (JArr (map JObj ms))"
  shows "standard_format (JObj d) =
     Inr (JObj [''hashes'' \<mapsto> JArr hs,
                ''metadata'' \<mapsto> JArr (map (\<lambda>(idx, m). JObj
                   ([''hash'' \<mapsto> opt_index (JArr hs) idx, ''text'' \<mapsto> field m ''text'',
                     ''score'' \<mapsto> js_or (field m ''score'') (JNum 0)] ++ m))
                   (zip [0..<length ms] ms))])"
proof -
  have e: "js_map (JArr (map JObj ms)) (standard_entry (JArr hs)) =
      Inr (map (\<lambda>(idx, m). JObj
                   ([''hash'' \<mapsto> opt_index (JArr hs) idx, ''text'' \<mapsto> field m ''text'',
                     ''score'' \<mapsto> js_or (field m ''score'') (JNum 0)] ++ m))
                   (zip [0..<length ms] ms))"
    by (rule js_map_indexed_objects) (rule standard_entry_object)
  show ?thesis
    using assms by (simp add: standard_format_def js_prop_object field_def js_or_def e)
qed

lemma query_issued:
  "snd (lancedb_queryCollection (recording answer) h cid text topK settings reqs) =
     reqs @ [lancedb_query_request h cid text topK settings]"
  "snd (qdrant_queryCollection (recording answer) h cid text topK settings reqs) =
     reqs @ [qdrant_query_request h cid text topK settings]"
  "snd (milvus_queryCollection (recording answer) h cid text topK settings reqs) =
     reqs @ [milvus_query_request h cid text topK settings]"
  "snd (standard_queryCollection (recording answer) h cid searchText topK settings queryVector reqs) =
     reqs @ [standard_query_request h cid searchText topK settings queryVector]"
  by (auto simp add: lancedb_queryCollection_def qdrant_queryCollection_def
      milvus_queryCollection_def standard_queryCollection_def io_defs recording_def
      split: prod.splits fetch_result.splits option.splits)

lemma plugin_query_fields:
  "body_field (lancedb_query_request h cid text topK settings) ''topK'' = Some topK"
  "body_field (lancedb_query_request h cid text topK settings) ''threshold'' = Some (JNum 0)"
  "body_field (qdrant_query_request h cid text topK settings) ''topK'' = Some topK"
  "body_field (qdrant_query_request h cid text topK settings) ''threshold'' = Some (JNum 0)"
  "body_field (milvus_query_request h cid text topK settings) ''topK'' = Some topK"
  "body_field (milvus_query_request h cid text topK settings) ''threshold'' = Some (JNum 0)"
  by (simp_all add: body_field_def lancedb_query_request_def qdrant_query_request_def
      milvus_query_request_def Let_def map_add_def providerParams_none)

lemma standard_query_fields:
  "body_field (standard_query_request h cid searchText topK settings queryVector) ''topK'' = Some topK"
  "body_field (standard_query_request h cid searchText topK settings queryVector) ''threshold'' =
     Some (js_or (field settings ''score_threshold'') (JNum 0))"
  by (simp_all add: body_field_def standard_query_request_def Let_def map_add_def providerParams_none)

lemma lancedb_queryCollection_ok:
  "fst (fetch (lancedb_query_request h cid text topK settings) w) = Resolved r \<Longrightarrow> ok r \<Longrightarrow>
     json_body r = Some data \<Longrightarrow>
     fst (lancedb_queryCollection fetch h cid text topK settings w) = plugin_format data"
  by (auto simp add: lancedb_queryCollection_def io_defs split: prod.splits fetch_result.splits)

lemma qdrant_queryCollection_ok:
  "fst (fetch (qdrant_query_request h cid text topK settings) w) = Resolved r \<Longrightarrow> ok r \<Longrightarrow>
     json_body r = Some data \<Longrightarrow>
     fst (qdrant_queryCollection fetch h cid text topK settings w) = plugin_format data"
  by (auto simp add: qdrant_queryCollection_def io_defs split: prod.splits fetch_result.splits)

lemma milvus_queryCollection_ok:
  "fst (fetch (milvus_query_request h cid text topK settings) w) = Resolved r \<Longrightarrow> ok r \<Longrightarrow>
     json_body r = Some data \<Longrightarrow>
     fst (milvus_queryCollection fetch h cid text topK settings w) = plugin_format data"
  by (auto simp add: milvus_queryCollection_def io_defs split: prod.splits fetch_result.splits)

lemma standard_queryCollection_ok:
  "fst (fetch (standard_query_request h cid searchText topK settings queryVector) w) = Resolved r \<Longrightarrow>
     ok r \<Longrightarrow> json_body r = Some data \<Longrightarrow>
     fst (standard_queryCollection fetch h cid searchText topK settings queryVector w) =
       standard_format data"
  by (auto simp add: standard_queryCollection_def io_defs split: prod.splits fetch_result.splits)

text \<open>
  C1, as the code has it. On every adapter \<^verbatim>\<open>queryCollection\<close> issues one request, which
  carries \<^verbatim>\<open>topK\<close> as the caller gave it. The threshold of the request is the constant
  0 on the LanceDB, the Qdrant and the Milvus adapter, whatever the settings hold; on the
  hybrid adapter it is \<^verbatim>\<open>settings.score_threshold\<close>, or 0 when that is missing or
  falsy. Every adapter returns the results of a successful response (an array of
  objects) in the order of the response, one entry for each result, neither filtered nor
  cut by the adapter.
\<close>

theorem queryCollection_threshold_sent:
  "snd (lancedb_queryCollection (recording answer) h cid text topK settings []) =
     [lancedb_query_request h cid text topK settings] \<and>
   body_field (lancedb_query_request h cid text topK settings) ''topK'' = Some topK \<and>
   body_field (lancedb_query_request h cid text topK settings) ''threshold'' = Some (JNum 0) \<and>
   snd (qdrant_queryCollection (recording answer) h cid text topK settings []) =
     [qdrant_query_request h cid text topK settings] \<and>
   body_field (qdrant_query_request h cid text topK settings) ''topK'' = Some topK \<and>
   body_field (qdrant_query_request h cid text topK settings) ''threshold'' = Some (JNum 0) \<and>
   snd (milvus_queryCollection (recording answer) h cid text topK settings []) =
     [milvus_query_request h cid text topK settings] \<and>
   body_field (milvus_query_request h cid text topK settings) ''topK'' = Some topK \<and>
   body_field (milvus_query_request h cid text topK settings) ''threshold'' = Some (JNum 0) \<and>
   snd (standard_queryCollection (recording answer) h cid searchText topK settings queryVector []) =
     [standard_query_request h cid searchText topK settings queryVector] \<and>
   body_field (standard_query_request h cid searchText topK settings queryVector) ''topK'' =
     Some topK \<and>
   body_field (standard_query_request h cid searchText topK settings queryVector) ''threshold'' =
     Some (if truthy (field settings ''score_threshold'') then field settings ''score_threshold''
           else JNum 0) \<and>
   (ok r \<and> json_body r = Some (JObj d) \<and> d ''results'' = Some (JArr (map JObj ms)) \<longrightarrow>
      (fst (fetch (lancedb_query_request h cid text topK settings) w) = Resolved r \<longrightarrow>
         fst (lancedb_queryCollection fetch h cid text topK settings w) =
           Inr (JObj [''hashes'' \<mapsto> JArr (map (\<lambda>m. field m ''hash'') ms),
                      ''metadata'' \<mapsto> JArr (map (\<lambda>m. JObj
                         ([''hash'' \<mapsto> field m ''hash'', ''text'' \<mapsto> field m ''text'',
                           ''score'' \<mapsto> field m ''score''] ++ own_props (field m ''metadata'')))
                         ms)])) \<and>
      (fst (fetch (qdrant_query_request h cid text topK settings) w) = Resolved r \<longrightarrow>
         fst (qdrant_queryCollection fetch h cid text topK settings w) =
           Inr (JObj [''hashes'' \<mapsto> JArr (map (\<lambda>m. field m ''hash'') ms),
                      ''metadata'' \<mapsto> JArr (map (\<lambda>m. JObj
                         ([''hash'' \<mapsto> field m ''hash'', ''text'' \<mapsto> field m ''text'',
                           ''score'' \<mapsto> field m ''score''] ++ own_props (field m ''metadata'')))
                         ms)])) \<and>
      (fst (fetch (milvus_query_request h cid text topK settings) w) = Resolved r \<longrightarrow>
         fst (milvus_queryCollection fetch h cid text topK settings w) =
           Inr (JObj [''hashes'' \<mapsto> JArr (map (\<lambda>m. field m ''hash'') ms),
                      ''metadata'' \<mapsto> JArr (map (\<lambda>m. JObj
                         ([''hash'' \<mapsto> field m ''hash'', ''text'' \<mapsto> field m ''text'',
                           ''score'' \<mapsto> field m ''score''] ++ own_props (field m ''metadata'')))
                         ms)]))) \<and>
   (ok r \<and> json_body r = Some (JObj d) \<and> d ''hashes'' = Some (JArr hs) \<and>
    d ''metadata'' = Some (JArr (map JObj ms)) \<and>
    fst (fetch (standard_query_request h cid searchText topK settings queryVector) w) = Resolved r
    \<longrightarrow>
      fst (standard_queryCollection fetch h cid searchText topK settings queryVector w) =
        Inr (JObj [''hashes'' \<mapsto> JArr hs,
                   ''metadata'' \<mapsto> JArr (map (\<lambda>(idx, m). JObj
                      ([''hash'' \<mapsto> opt_index (JArr hs) idx, ''text'' \<mapsto> field m ''text'',
                        ''score'' \<mapsto> js_or (field m ''score'') (JNum 0)] ++ m))
                      (zip [0..<length ms] ms))]))"
proof -
  have std: "ok r \<and> json_body r = Some (JObj d) \<and> d ''hashes'' = Some (JArr hs) \<and>
    d ''metadata'' = Some (JArr (map JObj ms)) \<and>
    fst (fetch (standard_query_request h cid searchText topK settings queryVector) w) = Resolved r
    \<longrightarrow>
      fst (standard_queryCollection fetch h cid searchText topK settings queryVector w) =
        Inr (JObj [''hashes'' \<mapsto> JArr hs,
                   ''metadata'' \<mapsto> JArr (map (\<lambda>(idx, m). JObj
                      ([''hash'' \<mapsto> opt_index (JArr hs) idx, ''text'' \<mapsto> field m ''text'',
                        ''score'' \<mapsto> js_or (field m ''score'') (JNum 0)] ++ m))
                      (zip [0..<length ms] ms))])"
    using standard_queryCollection_ok
        [of fetch h cid searchText topK settings queryVector w r "JObj d"]
      standard_format_objects [of d hs ms]
    by simp
  have fmt: "d ''results'' = Some (JArr (map JObj ms)) \<Longrightarrow> plugin_format (JObj d) =
     Inr (JObj [''hashes'' \<mapsto> JArr (map (\<lambda>m. field m ''hash'') ms),
                ''metadata'' \<mapsto> JArr (map (\<lambda>m. JObj
                   ([''hash'' \<mapsto> field m ''hash'', ''text'' \<mapsto> field m ''text'',
                     ''score'' \<mapsto> field m ''score''] ++ own_props (field m ''metadata''))) ms)])"
    by (rule plugin_format_objects)
  have res: "ok r \<and> json_body r = Some (JObj d) \<and> d ''results'' = Some (JArr (map JObj ms)) \<longrightarrow>
      (fst (fetch (lancedb_query_request h cid text topK settings) w) = Resolved r \<longrightarrow>
         fst (lancedb_queryCollection fetch h cid text topK settings w) = plugin_format (JObj d)) \<and>
      (fst (fetch (qdrant_query_request h cid text topK settings) w) = Resolved r \<longrightarrow>
         fst (qdrant_queryCollection fetch h cid text topK settings w) = plugin_format (JObj d)) \<and>
      (fst (fetch (milvus_query_request h cid text topK settings) w) = Resolved r \<longrightarrow>
         fst (milvus_queryCollection fetch h cid text topK settings w) = plugin_format (JObj d))"
    using lancedb_queryCollection_ok [of fetch h cid "text" topK settings w r "JObj d"]
      qdrant_queryCollection_ok [of fetch h cid "text" topK settings w r "JObj d"]
      milvus_queryCollection_ok [of fetch h cid "text" topK settings w r "JObj d"]
    by blast
  have req: "snd (lancedb_queryCollection (recording answer) h cid text topK settings []) =
     [lancedb_query_request h cid text topK settings] \<and>
   snd (qdrant_queryCollection (recording answer) h cid text topK settings []) =
     [qdrant_query_request h cid text topK settings] \<and>
   snd (milvus_queryCollection (recording answer) h cid text topK settings []) =
     [milvus_query_request h cid text topK settings] \<and>
   snd (standard_queryCollection (recording answer) h cid searchText topK settings queryVector []) =
     [standard_query_request h cid searchText topK settings queryVector]"
    by (simp add: query_issued)
  have fields: "body_field (standard_query_request h cid searchText topK settings queryVector)
        ''threshold'' =
      Some (if truthy (field settings ''score_threshold'') then field settings ''score_threshold''
            else JNum 0)"
    by (simp add: standard_query_fields js_or_def)
  from res fmt have plug:
    "ok r \<and> json_body r = Some (JObj d) \<and> d ''results'' = Some (JArr (map JObj ms)) \<longrightarrow>
      (fst (fetch (lancedb_query_request h cid text topK settings) w) = Resolved r \<longrightarrow>
         fst (lancedb_queryCollection fetch h cid text topK settings w) =
           Inr (JObj [''hashes'' \<mapsto> JArr (map (\<lambda>m. field m ''hash'') ms),
                      ''metadata'' \<mapsto> JArr (map (\<lambda>m. JObj
                         ([''hash'' \<mapsto> field m ''hash'', ''text'' \<mapsto> field m ''text'',
                           ''score'' \<mapsto> field m ''score''] ++ own_props (field m ''metadata'')))
                         ms)])) \<and>
      (fst (fetch (qdrant_query_request h cid text topK settings) w) = Resolved r \<longrightarrow>
         fst (qdrant_queryCollection fetch h cid text topK settings w) =
           Inr (JObj [''hashes'' \<mapsto> JArr (map (\<lambda>m. field m ''hash'') ms),
                      ''metadata'' \<mapsto> JArr (map (\<lambda>m. JObj
                         ([''hash'' \<mapsto> field m ''hash'', ''text'' \<mapsto> field m ''text'',
                           ''score'' \<mapsto> field m ''score''] ++ own_props (field m ''metadata'')))
                         ms)])) \<and>
      (fst (fetch (milvus_query_request h cid text topK settings) w) = Resolved r \<longrightarrow>
         fst (milvus_queryCollection fetch h cid text topK settings w) =
           Inr (JObj [''hashes'' \<mapsto> JArr (map (\<lambda>m. field m ''hash'') ms),
                      ''metadata'' \<mapsto> JArr (map (\<lambda>m. JObj
                         ([''hash'' \<mapsto> field m ''hash'', ''text'' \<mapsto> field m ''text'',
                           ''score'' \<mapsto> field m ''score''] ++ own_props (field m ''metadata'')))
                         ms)]))"
    by simp
  from req plug std fields show ?thesis
    by (simp only: plugin_query_fields standard_query_fields(1) simp_thms)
qed


theorem queryCollection_threshold_sent_witness:
  "fst (lancedb_queryCollection
          (answering (Resolved \<lparr>status = 200, json_body = Some (JObj [''results'' \<mapsto>
             JArr [JObj [''hash'' \<mapsto> JNum 7, ''text'' \<mapsto> JStr ''t'', ''score'' \<mapsto> JNum (9/10)]]])\<rparr>))
          example_host (JStr ''vh:chat:a'') (JStr ''q'') (JNum 5)
          [''score_threshold'' \<mapsto> JNum (1/2)] ()) =
     Inr (JObj [''hashes'' \<mapsto> JArr [JNum 7],
                ''metadata'' \<mapsto> JArr [JObj [''hash'' \<mapsto> JNum 7, ''text'' \<mapsto> JStr ''t'',
                                            ''score'' \<mapsto> JNum (9/10)]]]) \<and>
   fst (milvus_queryCollection
          (answering (Resolved \<lparr>status = 200, json_body = Some (JObj [''results'' \<mapsto>
             JArr [JObj [''hash'' \<mapsto> JNum 7, ''text'' \<mapsto> JStr ''t'', ''score'' \<mapsto> JNum (9/10)]]])\<rparr>))
          example_host (JStr ''vh:chat:a'') (JStr ''q'') (JNum 5)
          [''score_threshold'' \<mapsto> JNum (1/2)] ()) =
     Inr (JObj [''hashes'' \<mapsto> JArr [JNum 7],
                ''metadata'' \<mapsto> JArr [JObj [''hash'' \<mapsto> JNum 7, ''text'' \<mapsto> JStr ''t'',
                                            ''score'' \<mapsto> JNum (9/10)]]]) \<and>
   fst (qdrant_queryCollection
          (answering (Resolved \<lparr>status = 200, json_body = Some (JObj [''results'' \<mapsto>
             JArr [JObj [''hash'' \<mapsto> JNum 7, ''text'' \<mapsto> JStr ''t'', ''score'' \<mapsto> JNum (9/10)]]])\<rparr>))
          example_host (JStr ''vh:chat:a'') (JStr ''q'') (JNum 5)
          [''score_threshold'' \<mapsto> JNum (1/2)] ()) =
     Inr (JObj [''hashes'' \<mapsto> JArr [JNum 7],
                ''metadata'' \<mapsto> JArr [JObj [''hash'' \<mapsto> JNum 7, ''text'' \<mapsto> JStr ''t'',
                                            ''score'' \<mapsto> JNum (9/10)]]]) \<and>
   body_field (qdrant_query_request example_host (JStr ''vh:chat:a'') (JStr ''q'') (JNum 5)
                 [''score_threshold'' \<mapsto> JNum (1/2)]) ''topK'' = Some (JNum 5) \<and>
   body_field (standard_query_request example_host (JStr ''vh:chat:a'') ''q'' (JNum 5)
                 [''score_threshold'' \<mapsto> JNum (1/2)] JNull) ''threshold'' = Some (JNum (1/2)) \<and>
   (\<exists>res.
      fst (standard_queryCollection
             (answering (Resolved \<lparr>status = 200, json_body = Some (JObj
                [''hashes'' \<mapsto> JArr [JNum 7],
                 ''metadata'' \<mapsto> JArr [JObj [''text'' \<mapsto> JStr ''t'']]])\<rparr>))
             example_host (JStr ''vh:chat:a'') ''q'' (JNum 5)
             [''score_threshold'' \<mapsto> JNum (1/2)] JNull ()) = Inr (JObj res) \<and>
      res ''hashes'' = Some (JArr [JNum 7]))"
  using queryCollection_threshold_sent
    [where fetch = "answering (Resolved \<lparr>status = 200, json_body = Some (JObj
                [''hashes'' \<mapsto> JArr [JNum 7],
                 ''metadata'' \<mapsto> JArr [JObj [''text'' \<mapsto> JStr ''t'']]])\<rparr>)"
       and w = "()" and h = example_host and cid = "JStr ''vh:chat:a''" and searchText = "''q''"
       and topK = "JNum 5" and settings = "[''score_threshold'' \<mapsto> JNum (1/2)]"
       and queryVector = JNull
       and r = "\<lparr>status = 200, json_body = Some (JObj
                [''hashes'' \<mapsto> JArr [JNum 7],
                 ''metadata'' \<mapsto> JArr [JObj [''text'' \<mapsto> JStr ''t'']]])\<rparr>"
       and d = "[''hashes'' \<mapsto> JArr [JNum 7],
                 ''metadata'' \<mapsto> JArr [JObj [''text'' \<mapsto> JStr ''t'']]]"
       and hs = "[JNum 7]" and ms = "[[''text'' \<mapsto> JStr ''t'']]"]
    queryCollection_threshold_sent
    [of "\<lambda>req. Rejected" example_host "JStr ''vh:chat:a''" "JStr ''q''" "JNum 5"
      "[''score_threshold'' \<mapsto> JNum (1/2)]" "''q''" JNull
      "\<lparr>status = 200, json_body = Some (JObj [''results'' \<mapsto>
         JArr [JObj [''hash'' \<mapsto> JNum 7, ''text'' \<mapsto> JStr ''t'', ''score'' \<mapsto> JNum (9/10)]]])\<rparr>"
      "[''results'' \<mapsto>
         JArr [JObj [''hash'' \<mapsto> JNum 7, ''text'' \<mapsto> JStr ''t'', ''score'' \<mapsto> JNum (9/10)]]]"
      "[[''hash'' \<mapsto> JNum 7, ''text'' \<mapsto> JStr ''t'', ''score'' \<mapsto> JNum (9/10)]]"
      "answering (Resolved \<lparr>status = 200, json_body = Some (JObj [''results'' \<mapsto>
         JArr [JObj [''hash'' \<mapsto> JNum 7, ''text'' \<mapsto> JStr ''t'', ''score'' \<mapsto> JNum (9/10)]]])\<rparr>)"
      "()"]
  by (simp add: ok_def answering_def field_def)

text \<open>
  C1 as it is stated fails on the Qdrant adapter: with \<^verbatim>\<open>score_threshold\<close> 1/2 in the
  settings the request asks for the threshold 0, and an item of score 3/10 that the
  server returns is in the result.
\<close>

theorem queryCollection_threshold_counterexample:
  "body_field (qdrant_query_request example_host (JStr ''vh:chat:a'') (JStr ''q'') (JNum 5)
                 [''score_threshold'' \<mapsto> JNum (1/2)]) ''threshold'' = Some (JNum 0) \<and>
   fst (qdrant_queryCollection
          (answering (Resolved \<lparr>status = 200, json_body = Some (JObj [''results'' \<mapsto>
             JArr [JObj [''hash'' \<mapsto> JNum 7, ''text'' \<mapsto> JStr ''t'', ''score'' \<mapsto> JNum (3/10)]]])\<rparr>))
          example_host (JStr ''vh:chat:a'') (JStr ''q'') (JNum 5)
          [''score_threshold'' \<mapsto> JNum (1/2)] ()) =
     Inr (JObj [''hashes'' \<mapsto> JArr [JNum 7],
                ''metadata'' \<mapsto> JArr [JObj [''hash'' \<mapsto> JNum 7, ''text'' \<mapsto> JStr ''t'',
                                            ''score'' \<mapsto> JNum (3/10)]]]) \<and>
   (3/10 :: rat) < 1/2"
proof -
  have "plugin_format (JObj [''results'' \<mapsto>
             JArr (map JObj [[''hash'' \<mapsto> JNum 7, ''text'' \<mapsto> JStr ''t'', ''score'' \<mapsto> JNum (3/10)]])]) =
     Inr (JObj [''hashes'' \<mapsto> JArr [JNum 7],
                ''metadata'' \<mapsto> JArr [JObj [''hash'' \<mapsto> JNum 7, ''text'' \<mapsto> JStr ''t'',
                                            ''score'' \<mapsto> JNum (3/10)]]])"
    using plugin_format_objects
      [of "[''results'' \<mapsto>
             JArr (map JObj [[''hash'' \<mapsto> JNum 7, ''text'' \<mapsto> JStr ''t'', ''score'' \<mapsto> JNum (3/10)]])]"
          "[[''hash'' \<mapsto> JNum 7, ''text'' \<mapsto> JStr ''t'', ''score'' \<mapsto> JNum (3/10)]]"]
    by (simp add: field_def)
  then show ?thesis
    by (simp add: qdrant_queryCollection_def io_defs answering_def ok_def plugin_query_fields)
qed





section \<open>Inserting items\<close>

lemma map_exn_map:
  "(\<And>x. x \<in> set xs \<Longrightarrow> f x = Inr (g x)) \<Longrightarrow> map_exn f xs = Inr (map g xs)"
  by (induction xs) simp_all

lemma fold_update_other:
  "k0 \<notin> k ` set items \<Longrightarrow> fold (\<lambda>i m. m(k i \<mapsto> v i)) items m0 k0 = m0 k0"
  by (induction items arbitrary: m0) auto

lemma fold_update_last:
  assumes "\<forall>j \<in> set post. k j \<noteq> k item"
  shows "fold (\<lambda>i m. m(k i \<mapsto> v i)) (pre @ item # post) m0 (k item) = Some (v item)"
proof -
  have "k item \<notin> k ` set post"
    using assms by auto
  then show ?thesis
    by (simp add: fold_update_other)
qed

lemma fromEntries_strings:
  "fromEntries (map (\<lambda>i. (JStr (k i), v i)) items) =
     Inr (fold (\<lambda>i m. m(k i \<mapsto> v i)) items Map.empty)"
proof -
  have "map_exn (\<lambda>(k, v). case to_string k of Inl e \<Rightarrow> Inl e | Inr s \<Rightarrow> Inr (s, v))
          (map (\<lambda>i. (JStr (k i), v i)) items) =
        Inr (map (\<lambda>p. (k (fst p), snd p)) (map (\<lambda>i. (i, v i)) items))"
    by (induction items) simp_all
  then show ?thesis
    by (simp add: fromEntries_def fold_map comp_def)
qed

lemma math_max_numbers:
  "\<exists>maxLen. math_max (map (\<lambda>x. JNum (n x)) xs) = Inr maxLen"
proof -
  have "map_exn to_number (map (\<lambda>x. JNum (n x)) xs) = Inr (map (\<lambda>x. Fin (n x)) xs)"
    by (induction xs) (simp_all add: to_number_def)
  then show ?thesis
    by (simp add: math_max_def)
qed

lemma standard_insert_statistics_strings:
  assumes "\<forall>i \<in> set items. field i ''text'' = JStr (k i)"
  shows "standard_insert_statistics items = Inr ()"
proof -
  have lengths:
    "map_exn (\<lambda>item. js_prop (js_or (field item ''text'') (JStr [])) ''length'') items =
       Inr (map (\<lambda>item. JNum (of_nat (length (k item)))) items)"
    using assms by (intro map_exn_map) (simp add: js_or_def js_prop_def)
  obtain maxLen where maxLen:
    "math_max (map (\<lambda>item. JNum (of_nat (length (k item)))) items) = Inr maxLen"
    using math_max_numbers [of "\<lambda>item. of_nat (length (k item))" items] by blast
  have longest: "field (items ! idx) ''text'' = JStr (k (items ! idx))"
    if "idx < length items" for idx
    using that assms by simp
  show ?thesis
    unfolding standard_insert_statistics_def lengths
    by (auto simp add: maxLen longest Let_def substring_0_100_def js_or_def
        split: option.splits)
qed

lemma standard_insert_embeddings_strings:
  assumes "\<forall>i \<in> set items. field i ''text'' = JStr (k i)"
  shows "standard_insert_embeddings items =
     Inr (if truthy (case items of [] \<Rightarrow> JUndefined | i0 # rest \<Rightarrow> field i0 ''vector'')
          then JObj (fold (\<lambda>i m. m(k i \<mapsto> field i ''vector'')) items Map.empty)
          else JUndefined)"
proof -
  have entries: "map (\<lambda>i. (field i ''text'', field i ''vector'')) items =
        map (\<lambda>i. (JStr (k i), field i ''vector'')) items"
    using assms by simp
  show ?thesis
    unfolding standard_insert_embeddings_def entries fromEntries_strings by simp
qed

lemma standard_insert_strings:
  assumes "items \<noteq> []" and "\<forall>i \<in> set items. field i ''text'' = JStr (k i)"
  shows "\<exists>req. standard_insert_request h cid items settings = Inr req \<and>
     snd (standard_insertVectorItems (recording answer) h cid items settings reqs) =
       reqs @ [req] \<and>
     (truthy (field (hd items) ''vector'') \<longrightarrow>
        body_field req ''embeddings'' =
          Some (JObj (fold (\<lambda>i m. m(k i \<mapsto> field i ''vector'')) items Map.empty)))"
proof -
  define embeddings where "embeddings =
    (if truthy (field (hd items) ''vector'')
     then JObj (fold (\<lambda>i m. m(k i \<mapsto> field i ''vector'')) items Map.empty)
     else JUndefined)"
  have first: "(case items of [] \<Rightarrow> JUndefined | i0 # rest \<Rightarrow> field i0 ''vector'') =
      field (hd items) ''vector''"
    using assms(1) by (cases items) simp_all
  have e: "standard_insert_embeddings items = Inr embeddings"
    by (simp add: standard_insert_embeddings_strings [OF assms(2)] first embeddings_def)
  have v: "truthy (field (hd items) ''vector'') \<longrightarrow>
      embeddings = JObj (fold (\<lambda>i m. m(k i \<mapsto> field i ''vector'')) items Map.empty)"
    by (simp add: embeddings_def)
  have "\<exists>req. standard_insert_request h cid items settings = Inr req \<and>
      body_field req ''embeddings'' = Some embeddings"
    by (simp add: standard_insert_request_def e Let_def body_field_def map_add_def
        providerParams_none)
  then obtain req where req: "standard_insert_request h cid items settings = Inr req"
    and b: "body_field req ''embeddings'' = Some embeddings"
    by blast
  have "snd (standard_insertVectorItems (recording answer) h cid items settings reqs) =
      reqs @ [req]"
    using assms(1)
    by (auto simp add: standard_insertVectorItems_def standard_insert_statistics_strings [OF assms(2)]
        req io_defs recording_def split: prod.splits fetch_result.splits sum.splits)
  with req b v show ?thesis
    by auto
qed

lemma insert_nothing:
  "standard_insertVectorItems fetch h cid [] settings w = (Inr (), w)"
  "qdrant_insertVectorItems fetch h cid [] settings w = (Inr (), w)"
  by (simp_all add: standard_insertVectorItems_def qdrant_insertVectorItems_def io_return_def)

lemma qdrant_insert_issued:
  "items \<noteq> [] \<Longrightarrow>
     snd (qdrant_insertVectorItems (recording answer) h cid items settings reqs) =
       reqs @ [qdrant_insert_request h cid items settings]"
  by (auto simp add: qdrant_insertVectorItems_def io_defs
      recording_def split: prod.splits fetch_result.splits sum.splits)

lemma qdrant_insert_items_field:
  "body_field (qdrant_insert_request h cid items settings) ''items'' =
     Some (JArr (map qdrant_insert_item items))"
  by (simp add: body_field_def qdrant_insert_request_def Let_def map_add_def providerParams_none)

lemma qdrant_insert_item_vector:
  "\<exists>sent. qdrant_insert_item item = JObj sent \<and>
     sent ''hash'' = Some (field item ''hash'') \<and>
     sent ''vector'' = Some (field item ''vector'')"
  by (simp add: qdrant_insert_item_def)

text \<open>
  The statistics block of the hybrid adapter at work: an item whose text is not a string but
  has a length above 2000 makes \<^verbatim>\<open>insertVectorItems\<close> throw a TypeError before any
  request is issued; and the keys of \<^verbatim>\<open>Object.fromEntries\<close> are the string forms of
  the texts.
\<close>

lemma standard_insert_long_text_throws:
  "standard_insertVectorItems (recording answer) example_host (JStr ''vh:chat:a'')
     [[''hash'' \<mapsto> JNum 1, ''text'' \<mapsto> JObj [''length'' \<mapsto> JNum 2001],
       ''vector'' \<mapsto> JArr [JNum (1/2)]]] Map.empty [] = (Inl TypeError, [])"
  by (simp add: standard_insertVectorItems_def standard_insert_statistics_def io_defs
      js_or_def js_prop_def field_def math_max_def to_number_def substring_0_100_def Let_def)

lemma fromEntries_keys:
  "fromEntries [(JNum 5, a), (JNull, b), (JBool True, c), (JStr ''t'', d)] =
     Inr [''5'' \<mapsto> a, ''null'' \<mapsto> b, ''true'' \<mapsto> c, ''t'' \<mapsto> d]"
  by (simp add: fromEntries_def number_string_def show_nat.simps Let_def)

text \<open>
  C5, as the code has it. On an empty list \<^verbatim>\<open>insertVectorItems\<close> issues no request and
  returns. On the Qdrant adapter a list that is not empty is sent in one request, every
  item with its hash and with its own vector. On the hybrid adapter a list that is not
  empty and whose items all have a string as their text is sent in one request; when the
  first item carries a vector, the member \<^verbatim>\<open>embeddings\<close> of that request maps the text
  of every item to the vector of that item (of the last such item, when several items have
  the same text).
\<close>

theorem insertVectorItems_forwards_vectors:
  "standard_insertVectorItems (recording answer) h cid [] settings [] = (Inr (), []) \<and>
   qdrant_insertVectorItems (recording answer) h cid [] settings [] = (Inr (), []) \<and>
   (items \<noteq> [] \<longrightarrow>
      snd (qdrant_insertVectorItems (recording answer) h cid items settings []) =
        [qdrant_insert_request h cid items settings] \<and>
      body_field (qdrant_insert_request h cid items settings) ''items'' =
        Some (JArr (map qdrant_insert_item items)) \<and>
      (\<forall>item \<in> set items. \<exists>sent. qdrant_insert_item item = JObj sent \<and>
         sent ''hash'' = Some (field item ''hash'') \<and>
         sent ''vector'' = Some (field item ''vector''))) \<and>
   (items \<noteq> [] \<and> (\<forall>item \<in> set items. typeof (field item ''text'') = ''string'') \<longrightarrow>
      (\<exists>req.
         standard_insert_request h cid items settings = Inr req \<and>
         snd (standard_insertVectorItems (recording answer) h cid items settings []) = [req] \<and>
         (truthy (field (hd items) ''vector'') \<longrightarrow>
            (\<exists>embeddings.
               body_field req ''embeddings'' = Some (JObj embeddings) \<and>
               (\<forall>pre item post s.
                  items = pre @ item # post \<and> field item ''text'' = JStr s \<and>
                  (\<forall>j \<in> set post. field j ''text'' \<noteq> JStr s) \<longrightarrow>
                  embeddings s = Some (field item ''vector''))))))"
proof -
  have hybrid: "\<exists>req.
      standard_insert_request h cid items settings = Inr req \<and>
      snd (standard_insertVectorItems (recording answer) h cid items settings []) = [req] \<and>
      (truthy (field (hd items) ''vector'') \<longrightarrow>
         (\<exists>embeddings.
            body_field req ''embeddings'' = Some (JObj embeddings) \<and>
            (\<forall>pre item post s.
               items = pre @ item # post \<and> field item ''text'' = JStr s \<and>
               (\<forall>j \<in> set post. field j ''text'' \<noteq> JStr s) \<longrightarrow>
               embeddings s = Some (field item ''vector''))))"
    if ne: "items \<noteq> []"
      and strings: "\<forall>item \<in> set items. typeof (field item ''text'') = ''string''"
  proof -
    define k where "k = (\<lambda>i. case field i ''text'' of JStr s \<Rightarrow> s | _ \<Rightarrow> [])"
    have k: "\<forall>i \<in> set items. field i ''text'' = JStr (k i)"
    proof
      fix i assume "i \<in> set items"
      then have "typeof (field i ''text'') = ''string''"
        using strings by blast
      then show "field i ''text'' = JStr (k i)"
        by (cases "field i ''text''") (simp_all add: k_def)
    qed
    obtain req where req: "standard_insert_request h cid items settings = Inr req"
      and issued: "snd (standard_insertVectorItems (recording answer) h cid items settings []) =
        [] @ [req]"
      and emb: "truthy (field (hd items) ''vector'') \<longrightarrow>
        body_field req ''embeddings'' =
          Some (JObj (fold (\<lambda>i m. m(k i \<mapsto> field i ''vector'')) items Map.empty))"
      using standard_insert_strings [OF ne k, of h cid settings answer "[]"] by blast
    have last: "fold (\<lambda>i m. m(k i \<mapsto> field i ''vector'')) items Map.empty s =
        Some (field item ''vector'')"
      if "items = pre @ item # post" and "field item ''text'' = JStr s"
        and "\<forall>j \<in> set post. field j ''text'' \<noteq> JStr s" for pre item post s
    proof -
      have "k item = s"
        using that(2) by (simp add: k_def)
      moreover have "\<forall>j \<in> set post. k j \<noteq> k item"
      proof
        fix j assume j: "j \<in> set post"
        then have "j \<in> set items"
          using that(1) by simp
        then have "field j ''text'' = JStr (k j)"
          using k by blast
        then show "k j \<noteq> k item"
          using that(3) j \<open>k item = s\<close> by auto
      qed
      ultimately show ?thesis
        using fold_update_last [of post k item "\<lambda>i. field i ''vector''" pre Map.empty] that(1)
        by simp
    qed
    from req issued emb last show ?thesis
      by auto
  qed
  show ?thesis
    using qdrant_insert_issued [of items answer h cid settings "[]"] hybrid
    by (simp add: insert_nothing qdrant_insert_items_field qdrant_insert_item_vector)
qed

theorem insertVectorItems_forwards_vectors_witness:
  "standard_insertVectorItems (recording (\<lambda>req. Resolved \<lparr>status = 200, json_body = None\<rparr>))
      example_host (JStr ''vh:chat:a'') [] Map.empty [] = (Inr (), []) \<and>
   (\<exists>req embeddings.
      standard_insert_request example_host (JStr ''vh:chat:a'')
          [[''hash'' \<mapsto> JNum 1, ''text'' \<mapsto> JStr ''a'', ''vector'' \<mapsto> JArr [JNum (1/2)]],
           [''hash'' \<mapsto> JNum 2, ''text'' \<mapsto> JStr ''b'', ''vector'' \<mapsto> JArr [JNum (1/4)]]]
          Map.empty = Inr req \<and>
      snd (standard_insertVectorItems
            (recording (\<lambda>req. Resolved \<lparr>status = 200, json_body = None\<rparr>))
            example_host (JStr ''vh:chat:a'')
            [[''hash'' \<mapsto> JNum 1, ''text'' \<mapsto> JStr ''a'', ''vector'' \<mapsto> JArr [JNum (1/2)]],
             [''hash'' \<mapsto> JNum 2, ''text'' \<mapsto> JStr ''b'', ''vector'' \<mapsto> JArr [JNum (1/4)]]]
            Map.empty []) = [req] \<and>
      body_field req ''embeddings'' = Some (JObj embeddings) \<and>
      embeddings ''a'' = Some (JArr [JNum (1/2)]) \<and>
      embeddings ''b'' = Some (JArr [JNum (1/4)])) \<and>
   snd (qdrant_insertVectorItems (recording (\<lambda>req. Resolved \<lparr>status = 200, json_body = None\<rparr>))
          example_host (JStr ''vh:chat:a'')
          [[''hash'' \<mapsto> JNum 1, ''text'' \<mapsto> JStr ''a'', ''vector'' \<mapsto> JArr [JNum (1/2)]],
           [''hash'' \<mapsto> JNum 2, ''text'' \<mapsto> JStr ''b'', ''vector'' \<mapsto> JArr [JNum (1/4)]]]
          Map.empty []) =
     [qdrant_insert_request example_host (JStr ''vh:chat:a'')
          [[''hash'' \<mapsto> JNum 1, ''text'' \<mapsto> JStr ''a'', ''vector'' \<mapsto> JArr [JNum (1/2)]],
           [''hash'' \<mapsto> JNum 2, ''text'' \<mapsto> JStr ''b'', ''vector'' \<mapsto> JArr [JNum (1/4)]]]
          Map.empty] \<and>
   (\<exists>sent.
      qdrant_insert_item [''hash'' \<mapsto> JNum 2, ''text'' \<mapsto> JStr ''b'',
                          ''vector'' \<mapsto> JArr [JNum (1/4)]] = JObj sent \<and>
      sent ''hash'' = Some (JNum 2) \<and>
      sent ''vector'' = Some (JArr [JNum (1/4)]))"
proof -
  let ?answer = "\<lambda>req :: request. Resolved \<lparr>status = 200, json_body = None\<rparr>"
  let ?i0 = "[''hash'' \<mapsto> JNum 1, ''text'' \<mapsto> JStr ''a'', ''vector'' \<mapsto> JArr [JNum (1/2)]]"
  let ?i1 = "[''hash'' \<mapsto> JNum 2, ''text'' \<mapsto> JStr ''b'', ''vector'' \<mapsto> JArr [JNum (1/4)]]"
  have k: "field ?i0 ''text'' = JStr ''a''" "field ?i1 ''text'' = JStr ''b''"
    "field ?i0 ''vector'' = JArr [JNum (1/2)]" "field ?i1 ''vector'' = JArr [JNum (1/4)]"
    "field ?i1 ''hash'' = JNum 2"
    by (simp_all add: field_def)
  from insertVectorItems_forwards_vectors
    [of ?answer example_host "JStr ''vh:chat:a''" Map.empty "[?i0, ?i1]"]
  have noop: "standard_insertVectorItems (recording ?answer)
      example_host (JStr ''vh:chat:a'') [] Map.empty [] = (Inr (), [])"
    and hybrid: "\<exists>req.
      standard_insert_request example_host (JStr ''vh:chat:a'') [?i0, ?i1] Map.empty = Inr req \<and>
      snd (standard_insertVectorItems (recording ?answer) example_host (JStr ''vh:chat:a'')
            [?i0, ?i1] Map.empty []) = [req] \<and>
      (\<exists>embeddings.
         body_field req ''embeddings'' = Some (JObj embeddings) \<and>
         (\<forall>pre item post s.
            [?i0, ?i1] = pre @ item # post \<and> field item ''text'' = JStr s \<and>
            (\<forall>j \<in> set post. field j ''text'' \<noteq> JStr s) \<longrightarrow>
            embeddings s = Some (field item ''vector'')))"
    and qd: "snd (qdrant_insertVectorItems (recording ?answer)
          example_host (JStr ''vh:chat:a'') [?i0, ?i1] Map.empty []) =
        [qdrant_insert_request example_host (JStr ''vh:chat:a'') [?i0, ?i1] Map.empty]"
    and qv: "\<exists>sent. qdrant_insert_item ?i1 = JObj sent \<and>
         sent ''hash'' = Some (field ?i1 ''hash'') \<and>
         sent ''vector'' = Some (field ?i1 ''vector'')"
    by (simp_all add: k)
  from hybrid obtain req embeddings where e:
    "standard_insert_request example_host (JStr ''vh:chat:a'') [?i0, ?i1] Map.empty = Inr req"
    "snd (standard_insertVectorItems (recording ?answer) example_host (JStr ''vh:chat:a'')
          [?i0, ?i1] Map.empty []) = [req]"
    "body_field req ''embeddings'' = Some (JObj embeddings)"
    "\<forall>pre item post s.
       [?i0, ?i1] = pre @ item # post \<and> field item ''text'' = JStr s \<and>
       (\<forall>j \<in> set post. field j ''text'' \<noteq> JStr s) \<longrightarrow>
       embeddings s = Some (field item ''vector'')"
    by blast
  from e(4) [rule_format, of "[]" ?i0 "[?i1]" "''a''"]
  have a: "embeddings ''a'' = Some (JArr [JNum (1/2)])"
    by (simp add: k)
  from e(4) [rule_format, of "[?i0]" ?i1 "[]" "''b''"]
  have b: "embeddings ''b'' = Some (JArr [JNum (1/4)])"
    by (simp add: k)
  from qv have qv': "\<exists>sent. qdrant_insert_item ?i1 = JObj sent \<and>
         sent ''hash'' = Some (JNum 2) \<and> sent ''vector'' = Some (JArr [JNum (1/4)])"
    by (simp only: k)
  from noop e(1,2,3) a b qd qv' show ?thesis by blast
qed

text \<open>
  C5 as it is stated fails on the hybrid adapter for a list whose first item carries no
  vector: the vector of the second item is in no member of the request (the member
  \<^verbatim>\<open>embeddings\<close> is undefined, and the items are sent with hash, text and index only).
\<close>

theorem insertVectorItems_first_item_counterexample:
  "snd (standard_insertVectorItems (recording (\<lambda>req. Resolved \<lparr>status = 200, json_body = None\<rparr>))
          example_host (JStr ''vh:chat:a'')
          [[''hash'' \<mapsto> JNum 1, ''text'' \<mapsto> JStr ''a''],
           [''hash'' \<mapsto> JNum 2, ''text'' \<mapsto> JStr ''b'', ''vector'' \<mapsto> JArr [JNum (1/2)]]]
          Map.empty []) =
     [\<lparr>url = Path ''/api/vector/insert'', query = Map.empty, http_method = ''POST'',
       body = JObj [''collectionId'' \<mapsto> JStr ''vh:chat:a'',
                    ''items'' \<mapsto> JArr [JObj [''hash'' \<mapsto> JNum 1, ''text'' \<mapsto> JStr ''a'',
                                            ''index'' \<mapsto> JNum 0],
                                      JObj [''hash'' \<mapsto> JNum 2, ''text'' \<mapsto> JStr ''b'',
                                            ''index'' \<mapsto> JNum 0]],
                    ''source'' \<mapsto> JStr ''transformers'',
                    ''model'' \<mapsto> JStr [],
                    ''embeddings'' \<mapsto> JUndefined]\<rparr>] \<and>
   field [''hash'' \<mapsto> JNum 2, ''text'' \<mapsto> JStr ''b'', ''vector'' \<mapsto> JArr [JNum (1/2)]] ''vector'' =
     JArr [JNum (1/2)]"
  by (simp add: standard_insertVectorItems_def standard_insert_request_def
      standard_insert_statistics_def standard_insert_embeddings_def math_max_def to_number_def
      js_prop_def io_defs recording_def
      ok_def Let_def field_def js_or_def js_nullish_def getProviderSpecificParams_def
      getModelFromSettings_def getModelField_def)

section \<open>Querying several collections\<close>

lemma io_for_assign:
  assumes "\<And>x s w. f x s w = (Inr (js_assign s x (g x w)), t x w)"
  shows "\<exists>s' w'. io_for xs f s w = (Inr s', w') \<and>
           (\<forall>k. k \<in> set xs \<and> k \<noteq> ''__proto__'' \<longrightarrow> (\<exists>w0. s' k = Some (g k w0))) \<and>
           (\<forall>k. k \<notin> set xs \<or> k = ''__proto__'' \<longrightarrow> s' k = s k)"
proof (induction xs arbitrary: s w)
  case Nil
  show ?case by simp
next
  case (Cons x xs)
  obtain s' w' where r: "io_for xs f (js_assign s x (g x w)) (t x w) = (Inr s', w')"
    and a: "\<forall>k. k \<in> set xs \<and> k \<noteq> ''__proto__'' \<longrightarrow> (\<exists>w0. s' k = Some (g k w0))"
    and b: "\<forall>k. k \<notin> set xs \<or> k = ''__proto__'' \<longrightarrow> s' k = js_assign s x (g x w) k"
    using Cons [of "js_assign s x (g x w)" "t x w"] by blast
  have run: "io_for (x # xs) f s w = (Inr s', w')"
    using r by (simp add: assms)
  have c: "\<forall>k. k \<in> set (x # xs) \<and> k \<noteq> ''__proto__'' \<longrightarrow> (\<exists>w0. s' k = Some (g k w0))"
  proof (intro allI impI)
    fix k
    assume k: "k \<in> set (x # xs) \<and> k \<noteq> ''__proto__''"
    show "\<exists>w0. s' k = Some (g k w0)"
    proof (cases "k \<in> set xs")
      case True
      with a k show ?thesis by blast
    next
      case False
      with k have "k = x" by simp
      with b False k have "s' k = Some (g k w)" by (simp add: js_assign_def)
      then show ?thesis by blast
    qed
  qed
  have d: "\<forall>k. k \<notin> set (x # xs) \<or> k = ''__proto__'' \<longrightarrow> s' k = s k"
    using b by (auto simp add: js_assign_def)
  from run c d show ?case by blast
qed

lemma qdrant_query_one_result:
  "qdrant_query_one fetch h cid searchText topK threshold settings w =
     (Inr (case fst (fetch (qdrant_query_multi_request h cid searchText topK threshold settings) w) of
             Rejected \<Rightarrow> empty_result
           | Resolved r \<Rightarrow>
               if ok r then
                 (case json_body r of
                    None \<Rightarrow> empty_result
                  | Some data \<Rightarrow>
                      (case plugin_format_multi data of
                         Inl e \<Rightarrow> empty_result
                       | Inr res \<Rightarrow> res))
               else empty_result),
      snd (fetch (qdrant_query_multi_request h cid searchText topK threshold settings) w))"
  by (simp add: qdrant_query_one_def io_defs
      split: prod.splits fetch_result.splits option.splits sum.splits)

lemma standard_query_caught:
  "io_bind
     (io_catch (standard_queryCollection fetch h (JStr cid) searchText topK settings queryVector)
        (\<lambda>e. io_return empty_result))
     (\<lambda>r. io_return (js_assign results cid r)) w =
   (Inr (js_assign results cid
           (case fst (standard_queryCollection fetch h (JStr cid) searchText topK settings queryVector w)
            of Inl e \<Rightarrow> empty_result | Inr res \<Rightarrow> res)),
    snd (standard_queryCollection fetch h (JStr cid) searchText topK settings queryVector w))"
  by (simp add: io_return_def io_bind_def io_catch_def split: prod.splits sum.splits)


lemma await_fetch_resolved:
  "fst (fetch req w) = Resolved r \<Longrightarrow> await_fetch fetch req w = (Inr r, snd (fetch req w))"
  by (cases "fetch req w") (simp add: await_fetch_def)

lemma qdrant_multi_total:
  assumes "''__proto__'' \<notin> set ids"
  shows "\<exists>results w'.
     qdrant_queryMultipleCollections fetch h ids qtext topK threshold settings w =
       (Inr (JObj results), w') \<and>
     dom results = set ids \<and>
     (\<forall>cid \<in> set ids. \<exists>w0. results cid =
        Some (case fst (fetch (qdrant_query_multi_request h cid qtext topK threshold settings) w0) of
                Rejected \<Rightarrow> empty_result
              | Resolved r \<Rightarrow>
                  if ok r then
                    (case json_body r of
                       None \<Rightarrow> empty_result
                     | Some data \<Rightarrow>
                         (case plugin_format_multi data of
                            Inl e \<Rightarrow> empty_result
                          | Inr res \<Rightarrow> res))
                  else empty_result))"
proof -
  let ?g = "\<lambda>cid w0.
     case fst (fetch (qdrant_query_multi_request h cid qtext topK threshold settings) w0) of
       Rejected \<Rightarrow> empty_result
     | Resolved r \<Rightarrow>
         if ok r then
           (case json_body r of
              None \<Rightarrow> empty_result
            | Some data \<Rightarrow>
                (case plugin_format_multi data of
                   Inl e \<Rightarrow> empty_result
                 | Inr res \<Rightarrow> res))
         else empty_result"
  let ?t = "\<lambda>cid w0. snd (fetch (qdrant_query_multi_request h cid qtext topK threshold settings) w0)"
  define f where "f = (\<lambda>collectionId results.
     io_bind (qdrant_query_one fetch h collectionId qtext topK threshold settings)
       (\<lambda>r. io_return (js_assign results collectionId r)))"
  have step: "\<And>x s w. f x s w = (Inr (js_assign s x (?g x w)), ?t x w)"
    by (simp add: f_def io_bind_def io_return_def qdrant_query_one_result)
  obtain results w' where run: "io_for ids f Map.empty w = (Inr results, w')"
    and a: "\<forall>k. k \<in> set ids \<and> k \<noteq> ''__proto__'' \<longrightarrow> (\<exists>w0. results k = Some (?g k w0))"
    and b: "\<forall>k. k \<notin> set ids \<or> k = ''__proto__'' \<longrightarrow> results k = Map.empty k"
    using io_for_assign [of f ?g ?t ids Map.empty w, OF step] by blast
  have r: "qdrant_queryMultipleCollections fetch h ids qtext topK threshold settings w =
       (Inr (JObj results), w')"
    unfolding qdrant_queryMultipleCollections_def f_def [symmetric]
    using run by (simp add: io_bind_def io_return_def)
  have d: "dom results = set ids"
  proof
    show "dom results \<subseteq> set ids"
      using b by (auto simp: dom_def)
    show "set ids \<subseteq> dom results"
      using a assms by (fastforce simp: dom_def)
  qed
  have e: "\<forall>cid \<in> set ids. \<exists>w0. results cid = Some (?g cid w0)"
    using a assms by blast
  from r d e show ?thesis by blast
qed

lemma standard_multi_fallback:
  assumes "''__proto__'' \<notin> set ids"
    and "fst (fetch (standard_query_multi_request h ids searchText topK threshold settings
                       queryVector) w) = Resolved r0"
    and "\<not> ok r0"
  shows "\<exists>results w'.
     standard_queryMultipleCollections fetch h ids searchText topK threshold settings queryVector w =
       (Inr (JObj results), w') \<and>
     dom results = set ids \<and>
     (\<forall>cid \<in> set ids. \<exists>w0. results cid =
        Some (case fst (standard_queryCollection fetch h (JStr cid) searchText topK settings
                          queryVector w0) of
                Inl e \<Rightarrow> empty_result
              | Inr res \<Rightarrow> res))"
proof -
  let ?g = "\<lambda>cid w0.
     case fst (standard_queryCollection fetch h (JStr cid) searchText topK settings queryVector w0) of
       Inl e \<Rightarrow> empty_result
     | Inr res \<Rightarrow> res"
  let ?t = "\<lambda>cid w0.
     snd (standard_queryCollection fetch h (JStr cid) searchText topK settings queryVector w0)"
  define f where "f = (\<lambda>collectionId results.
     io_bind
       (io_catch
          (standard_queryCollection fetch h (JStr collectionId) searchText topK settings queryVector)
          (\<lambda>e. io_return empty_result))
       (\<lambda>r. io_return (js_assign results collectionId r)))"
  let ?w1 = "snd (fetch (standard_query_multi_request h ids searchText topK threshold settings
                           queryVector) w)"
  have step: "\<And>x s w. f x s w = (Inr (js_assign s x (?g x w)), ?t x w)"
    unfolding f_def by (rule standard_query_caught)
  obtain results w' where run: "io_for ids f Map.empty ?w1 = (Inr results, w')"
    and a: "\<forall>k. k \<in> set ids \<and> k \<noteq> ''__proto__'' \<longrightarrow> (\<exists>w0. results k = Some (?g k w0))"
    and b: "\<forall>k. k \<notin> set ids \<or> k = ''__proto__'' \<longrightarrow> results k = Map.empty k"
    using io_for_assign [of f ?g ?t ids Map.empty ?w1, OF step] by blast
  have fr: "await_fetch fetch (standard_query_multi_request h ids searchText topK threshold settings
                           queryVector) w = (Inr r0, ?w1)"
    using assms(2) by (rule await_fetch_resolved)
  have r: "standard_queryMultipleCollections fetch h ids searchText topK threshold settings
             queryVector w = (Inr (JObj results), w')"
    unfolding standard_queryMultipleCollections_def f_def [symmetric]
    using run fr assms(3) by (simp add: io_bind_def io_return_def)
  have d: "dom results = set ids"
  proof
    show "dom results \<subseteq> set ids"
      using b by (auto simp: dom_def)
    show "set ids \<subseteq> dom results"
      using a assms(1) by (fastforce simp: dom_def)
  qed
  have e: "\<forall>cid \<in> set ids. \<exists>w0. results cid = Some (?g cid w0)"
    using a assms(1) by blast
  from r d e show ?thesis by blast
qed

lemma standard_multi_ok:
  assumes "fst (fetch (standard_query_multi_request h ids searchText topK threshold settings
                       queryVector) w) = Resolved r0"
    and "ok r0"
  shows "fst (standard_queryMultipleCollections fetch h ids searchText topK threshold settings
                queryVector w) =
           (case json_body r0 of None \<Rightarrow> Inl SyntaxError | Some data \<Rightarrow> Inr data)"
  using assms
  by (auto simp add: standard_queryMultipleCollections_def io_defs
      split: prod.splits option.splits fetch_result.splits)


text \<open>
  C3, as the code has it. The ids are property names of the result other than
  \<^verbatim>\<open>__proto__\<close>. On the Qdrant adapter \<^verbatim>\<open>queryMultipleCollections\<close> throws nothing and
  returns a mapping whose keys are exactly the requested ids; the entry of an id is
  decided by the outcome of the request for that id alone (in the state the transport
  was in when it was asked): the formatted results of a successful response, and the empty
  Query Result when the request was rejected, answered without success, or answered with
  a body that cannot be read. On the hybrid adapter the same holds when the one request
  for all collections is answered with a status that is not a success: then every
  collection is queried by \<^verbatim>\<open>queryCollection\<close>, and an exception of that query becomes
  the empty Query Result of that collection. When the one request is answered with
  success, its JSON body is what the operation returns.
\<close>

theorem queryMultipleCollections_isolated:
  assumes "''__proto__'' \<notin> set ids"
  shows
    "(\<exists>results w'.
        qdrant_queryMultipleCollections fetch h ids qtext topK threshold settings w =
          (Inr (JObj results), w') \<and>
        dom results = set ids \<and>
        (\<forall>cid \<in> set ids. \<exists>w0. results cid =
           Some (case fst (fetch (qdrant_query_multi_request h cid qtext topK threshold settings) w0)
                 of Rejected \<Rightarrow> empty_result
                  | Resolved r \<Rightarrow>
                      if ok r then
                        (case json_body r of
                           None \<Rightarrow> empty_result
                         | Some data \<Rightarrow>
                             (case plugin_format_multi data of
                                Inl e \<Rightarrow> empty_result
                              | Inr res \<Rightarrow> res))
                      else empty_result))) \<and>
     (\<forall>r0. fst (fetch (standard_query_multi_request h ids searchText topK threshold settings
                        queryVector) w) = Resolved r0 \<and> \<not> ok r0 \<longrightarrow>
        (\<exists>results w'.
           standard_queryMultipleCollections fetch h ids searchText topK threshold settings
               queryVector w = (Inr (JObj results), w') \<and>
           dom results = set ids \<and>
           (\<forall>cid \<in> set ids. \<exists>w0. results cid =
              Some (case fst (standard_queryCollection fetch h (JStr cid) searchText topK settings
                                queryVector w0) of
                      Inl e \<Rightarrow> empty_result
                    | Inr res \<Rightarrow> res)))) \<and>
     (\<forall>r0. fst (fetch (standard_query_multi_request h ids searchText topK threshold settings
                        queryVector) w) = Resolved r0 \<and> ok r0 \<longrightarrow>
        fst (standard_queryMultipleCollections fetch h ids searchText topK threshold settings
               queryVector w) =
          (case json_body r0 of None \<Rightarrow> Inl SyntaxError | Some data \<Rightarrow> Inr data))"
  using qdrant_multi_total [OF assms, of fetch h qtext topK threshold settings w]
    standard_multi_fallback [OF assms, of fetch h searchText topK threshold settings queryVector w]
    standard_multi_ok [of fetch h ids searchText topK threshold settings queryVector w]
  by blast


lemma plugin_format_multi_objects:
  assumes "d ''results'' = Some (JArr (map JObj (m # ms)))"
  shows "plugin_format_multi (JObj d) = plugin_format (JObj d)"
  using assms by (simp add: plugin_format_multi_def plugin_format_def js_prop_object field_def)

theorem queryMultipleCollections_isolated_witness:
  "(\<exists>results.
      fst (qdrant_queryMultipleCollections (recording b_fails_transport) example_host
             [''vh:chat:a'', ''vh:chat:b''] (JStr ''q'') (JNum 5) (JNum 0) Map.empty []) =
        Inr (JObj results) \<and>
      dom results = {''vh:chat:a'', ''vh:chat:b''} \<and>
      results ''vh:chat:a'' =
        Some (JObj [''hashes'' \<mapsto> JArr [JNum 7],
                    ''metadata'' \<mapsto> JArr [JObj [''hash'' \<mapsto> JNum 7, ''text'' \<mapsto> JStr ''t'',
                                                ''score'' \<mapsto> JNum (9/10)]]]) \<and>
      results ''vh:chat:b'' = Some empty_result) \<and>
   (\<exists>results.
      fst (standard_queryMultipleCollections (recording b_fails_transport) example_host
             [''vh:chat:a'', ''vh:chat:b''] ''q'' (JNum 5) (JNum 0) Map.empty JNull []) =
        Inr (JObj results) \<and>
      dom results = {''vh:chat:a'', ''vh:chat:b''} \<and>
      (\<exists>res. results ''vh:chat:a'' = Some (JObj res) \<and> res ''hashes'' = Some (JArr [JNum 7])) \<and>
      results ''vh:chat:b'' = Some empty_result) \<and>
   fst (standard_queryMultipleCollections
          (answering (Resolved \<lparr>status = 200,
                                json_body = Some (JObj [''vh:chat:a'' \<mapsto> empty_result])\<rparr>))
          example_host [''vh:chat:a''] ''q'' (JNum 5) (JNum 0) Map.empty JNull ()) =
     Inr (JObj [''vh:chat:a'' \<mapsto> empty_result])"
proof -
  have okb: "fst (standard_queryMultipleCollections
          (answering (Resolved \<lparr>status = 200,
                                json_body = Some (JObj [''vh:chat:a'' \<mapsto> empty_result])\<rparr>))
          example_host [''vh:chat:a''] ''q'' (JNum 5) (JNum 0) Map.empty JNull ()) =
     Inr (JObj [''vh:chat:a'' \<mapsto> empty_result])"
    using queryMultipleCollections_isolated
      [of "[''vh:chat:a'']"
        "answering (Resolved \<lparr>status = 200,
                                json_body = Some (JObj [''vh:chat:a'' \<mapsto> empty_result])\<rparr>)"
        example_host "JStr ''q''" "JNum 5" "JNum 0" Map.empty "()" "''q''" JNull,
        THEN conjunct2, THEN conjunct2, rule_format,
        of "\<lparr>status = 200, json_body = Some (JObj [''vh:chat:a'' \<mapsto> empty_result])\<rparr>"]
    by (simp add: answering_def ok_def)
  have pa: "qdrant_parseCollectionId (JStr ''vh:chat:a'') = \<lparr>type = ''chat'', sourceId = ''a''\<rparr>"
    and pb: "qdrant_parseCollectionId (JStr ''vh:chat:b'') = \<lparr>type = ''chat'', sourceId = ''b''\<rparr>"
    by (simp_all add: qdrant_parseCollectionId_def Let_def)
  have ta: "b_fails_transport (qdrant_query_multi_request example_host ''vh:chat:a'' (JStr ''q'')
              (JNum 5) (JNum 0) Map.empty) =
      Resolved \<lparr>status = 200, json_body = Some (JObj
                        [''results'' \<mapsto> JArr [JObj [''hash'' \<mapsto> JNum 7, ''text'' \<mapsto> JStr ''t'',
                                                   ''score'' \<mapsto> JNum (9/10)]]])\<rparr>"
    by (simp add: b_fails_transport_def qdrant_query_multi_request_def Let_def body_field_def pa
        map_add_def providerParams_none)
  have tb: "b_fails_transport (qdrant_query_multi_request example_host ''vh:chat:b'' (JStr ''q'')
              (JNum 5) (JNum 0) Map.empty) = Rejected"
    by (simp add: b_fails_transport_def qdrant_query_multi_request_def Let_def body_field_def pb
        map_add_def providerParams_none)
  have fa: "plugin_format_multi (JObj
                        [''results'' \<mapsto> JArr [JObj [''hash'' \<mapsto> JNum 7, ''text'' \<mapsto> JStr ''t'',
                                                   ''score'' \<mapsto> JNum (9/10)]]]) =
     Inr (JObj [''hashes'' \<mapsto> JArr [JNum 7],
                    ''metadata'' \<mapsto> JArr [JObj [''hash'' \<mapsto> JNum 7, ''text'' \<mapsto> JStr ''t'',
                                                ''score'' \<mapsto> JNum (9/10)]]])"
    using plugin_format_multi_objects
      [of "[''results'' \<mapsto> JArr [JObj [''hash'' \<mapsto> JNum 7, ''text'' \<mapsto> JStr ''t'',
                                                   ''score'' \<mapsto> JNum (9/10)]]]"
          "[''hash'' \<mapsto> JNum 7, ''text'' \<mapsto> JStr ''t'', ''score'' \<mapsto> JNum (9/10)]" "[]"]
      plugin_format_objects
      [of "[''results'' \<mapsto> JArr [JObj [''hash'' \<mapsto> JNum 7, ''text'' \<mapsto> JStr ''t'',
                                                   ''score'' \<mapsto> JNum (9/10)]]]"
          "[[''hash'' \<mapsto> JNum 7, ''text'' \<mapsto> JStr ''t'', ''score'' \<mapsto> JNum (9/10)]]"]
    by (simp add: field_def)
  have sm: "b_fails_transport (standard_query_multi_request example_host
              [''vh:chat:a'', ''vh:chat:b''] ''q'' (JNum 5) (JNum 0) Map.empty JNull) =
      Resolved \<lparr>status = 404, json_body = None\<rparr>"
    by (simp add: b_fails_transport_def standard_query_multi_request_def Let_def)
  have sa: "\<And>w0. \<exists>res. fst (standard_queryCollection (recording b_fails_transport) example_host
              (JStr ''vh:chat:a'') ''q'' (JNum 5) Map.empty JNull w0) = Inr (JObj res) \<and>
              res ''hashes'' = Some (JArr [JNum 7])"
    by (simp add: standard_queryCollection_def io_defs recording_def b_fails_transport_def
        standard_query_request_def Let_def body_field_def map_add_def providerParams_none ok_def
        standard_format_def js_prop_object field_def js_or_def js_map_def standard_entry_def)
  have sb: "\<And>w0. \<exists>e. fst (standard_queryCollection (recording b_fails_transport) example_host
              (JStr ''vh:chat:b'') ''q'' (JNum 5) Map.empty JNull w0) = Inl e"
    by (simp add: standard_queryCollection_def io_defs recording_def b_fails_transport_def
        standard_query_request_def Let_def body_field_def map_add_def providerParams_none ok_def)
  have ids: "''__proto__'' \<notin> set [''vh:chat:a'', ''vh:chat:b'']"
    by simp
  note inst = queryMultipleCollections_isolated [OF ids, of "recording b_fails_transport" example_host
      "JStr ''q''" "JNum 5" "JNum 0" Map.empty "[]" "''q''" JNull]
  from inst obtain results where q:
    "fst (qdrant_queryMultipleCollections (recording b_fails_transport) example_host
             [''vh:chat:a'', ''vh:chat:b''] (JStr ''q'') (JNum 5) (JNum 0) Map.empty []) =
        Inr (JObj results)"
    "dom results = {''vh:chat:a'', ''vh:chat:b''}"
    "results ''vh:chat:a'' =
        Some (JObj [''hashes'' \<mapsto> JArr [JNum 7],
                    ''metadata'' \<mapsto> JArr [JObj [''hash'' \<mapsto> JNum 7, ''text'' \<mapsto> JStr ''t'',
                                                ''score'' \<mapsto> JNum (9/10)]]])"
    "results ''vh:chat:b'' = Some empty_result"
    by (auto simp add: recording_def ta tb fa ok_def)
  have c: "fst (recording b_fails_transport (standard_query_multi_request example_host
              [''vh:chat:a'', ''vh:chat:b''] ''q'' (JNum 5) (JNum 0) Map.empty JNull) []) =
            Resolved \<lparr>status = 404, json_body = None\<rparr> \<and>
           \<not> ok \<lparr>status = 404, json_body = None\<rparr>"
    by (simp add: recording_def sm ok_def)
  note std = inst [THEN conjunct2, THEN conjunct1, rule_format, OF c]
  then obtain sresults w' where s1:
    "standard_queryMultipleCollections (recording b_fails_transport) example_host
             [''vh:chat:a'', ''vh:chat:b''] ''q'' (JNum 5) (JNum 0) Map.empty JNull [] =
        (Inr (JObj sresults), w')"
    and s2: "dom sresults = set [''vh:chat:a'', ''vh:chat:b'']"
    and s3: "\<forall>cid \<in> set [''vh:chat:a'', ''vh:chat:b'']. \<exists>w0. sresults cid =
              Some (case fst (standard_queryCollection (recording b_fails_transport) example_host
                                (JStr cid) ''q'' (JNum 5) Map.empty JNull w0) of
                      Inl e \<Rightarrow> empty_result
                    | Inr res \<Rightarrow> res)"
    by blast
  from s3 obtain wa where a: "sresults ''vh:chat:a'' =
              Some (case fst (standard_queryCollection (recording b_fails_transport) example_host
                                (JStr ''vh:chat:a'') ''q'' (JNum 5) Map.empty JNull wa) of
                      Inl e \<Rightarrow> empty_result
                    | Inr res \<Rightarrow> res)"
    by auto
  from s3 obtain wb where b: "sresults ''vh:chat:b'' =
              Some (case fst (standard_queryCollection (recording b_fails_transport) example_host
                                (JStr ''vh:chat:b'') ''q'' (JNum 5) Map.empty JNull wb) of
                      Inl e \<Rightarrow> empty_result
                    | Inr res \<Rightarrow> res)"
    by auto
  from sa [of wa] obtain res where
    "fst (standard_queryCollection (recording b_fails_transport) example_host
              (JStr ''vh:chat:a'') ''q'' (JNum 5) Map.empty JNull wa) = Inr (JObj res)"
    "res ''hashes'' = Some (JArr [JNum 7])"
    by blast
  with a have s3': "\<exists>res. sresults ''vh:chat:a'' = Some (JObj res) \<and>
      res ''hashes'' = Some (JArr [JNum 7])"
    by simp
  from sb [of wb] obtain e where
    "fst (standard_queryCollection (recording b_fails_transport) example_host
              (JStr ''vh:chat:b'') ''q'' (JNum 5) Map.empty JNull wb) = Inl e"
    by blast
  with b have s4: "sresults ''vh:chat:b'' = Some empty_result"
    by simp
  from s1 have s1': "fst (standard_queryMultipleCollections (recording b_fails_transport) example_host
             [''vh:chat:a'', ''vh:chat:b''] ''q'' (JNum 5) (JNum 0) Map.empty JNull []) =
        Inr (JObj sresults)"
    by simp
  from s2 have s2': "dom sresults = {''vh:chat:a'', ''vh:chat:b''}"
    by simp
  from q s1' s2' s3' s4 okb show ?thesis by blast
qed


text \<open>
  C3 as it is stated fails on the hybrid adapter: when the one request for all
  collections is rejected by the transport, or answered with success and a body that is
  not JSON, the exception leaves \<^verbatim>\<open>queryMultipleCollections\<close>, and no mapping is
  returned.
\<close>

theorem queryMultipleCollections_standard_counterexample:
  "fst (standard_queryMultipleCollections (answering Rejected) example_host
          [''vh:chat:a'', ''vh:chat:b''] ''q'' (JNum 5) (JNum 0) Map.empty JNull ()) =
     Inl NetworkError \<and>
   fst (standard_queryMultipleCollections
          (answering (Resolved \<lparr>status = 200, json_body = None\<rparr>)) example_host
          [''vh:chat:a'', ''vh:chat:b''] ''q'' (JNum 5) (JNum 0) Map.empty JNull ()) =
     Inl SyntaxError"
  by (simp add: standard_queryMultipleCollections_def io_defs answering_def ok_def)

end
